theory Spec2Isabelle
  imports Complex_Main
begin

section \<open>Bill storage in browser local storage\<close>

text \<open>
  The repository keeps "bill" records in two local-storage slots, through two modules
  with the same operations: \<^verbatim>\<open>billStorage.js\<close> (key \<^verbatim>\<open>saved_bills\<close>) and
  \<^verbatim>\<open>billstorage2.js\<close> (key \<^verbatim>\<open>saved_bills02\<close>, with a duplicate check in front of
  the save). Each operation reads the whole array with \<^verbatim>\<open>JSON.parse\<close>, works on it and
  writes it back with \<^verbatim>\<open>JSON.stringify\<close>.

  The embedding follows the JavaScript as it is written. What the host supplies
  (values, \<^verbatim>\<open>localStorage\<close>, \<^verbatim>\<open>JSON\<close>, \<^verbatim>\<open>Date\<close>, the array methods) is modelled in
  the first subsections, the two modules after them.
\<close>

subsection \<open>JavaScript values\<close>

text \<open>
  The values are the ones JSON can carry, which is what a slot can hold and what the
  documented record shapes are made of (strings, and arrays of objects of strings).
  An object is a map from property names to values; a property that is absent reads as
  \<^verbatim>\<open>undefined\<close>, which is \<open>None\<close>, and an object is not told apart from one that
  holds \<^verbatim>\<open>undefined\<close> under a name. Numbers are carried by their exact value.
  A string is the sequence of the bytes that write it (UTF-8), so that strings are
  equal when their texts are; the letters of ASCII are one byte each.
\<close>

datatype jsval =
    JNull
  | JBool bool
  | JNum real
  | JStr string
  | JArr "jsval list"
  | JObj "string \<Rightarrow> jsval option"

type_synonym obj = "string \<Rightarrow> jsval option"

text \<open>
  The exceptions: \<^verbatim>\<open>new Error(message)\<close> thrown by the modules themselves, and the
  host's \<^verbatim>\<open>TypeError\<close> (a property read on \<^verbatim>\<open>null\<close> or \<^verbatim>\<open>undefined\<close>, a call of
  something that is not a function) and \<^verbatim>\<open>SyntaxError\<close> (\<^verbatim>\<open>JSON.parse\<close>).
\<close>

datatype error = Error string | TypeError | SyntaxError

text \<open>\<^verbatim>\<open>v ? a : b\<close> and \<^verbatim>\<open>v || b\<close> on a value.\<close>

fun truthy :: "jsval \<Rightarrow> bool" where
  "truthy JNull = False"
| "truthy (JBool b) = b"
| "truthy (JNum n) = (n \<noteq> 0)"
| "truthy (JStr s) = (s \<noteq> [])"
| "truthy (JArr xs) = True"
| "truthy (JObj m) = True"

text \<open>
  \<^verbatim>\<open>a === b\<close>, where \<open>a\<close> was read from a parsed record and \<open>b\<close> is the caller's:
  primitives are compared by type and value; an object or an array is only equal to
  itself, and a freshly parsed one is never the caller's.
\<close>

fun strict_eq :: "jsval option \<Rightarrow> jsval option \<Rightarrow> bool" where
  "strict_eq None None = True"
| "strict_eq (Some JNull) (Some JNull) = True"
| "strict_eq (Some (JBool a)) (Some (JBool b)) = (a = b)"
| "strict_eq (Some (JNum a)) (Some (JNum b)) = (a = b)"
| "strict_eq (Some (JStr a)) (Some (JStr b)) = (a = b)"
| "strict_eq _ _ = False"

text \<open>
  \<^verbatim>\<open>bill.k\<close> for the names the modules read (\<^verbatim>\<open>id\<close>, \<^verbatim>\<open>customer\<close>, \<^verbatim>\<open>address\<close>,
  \<^verbatim>\<open>city\<close>, \<^verbatim>\<open>invoice\<close>): a TypeError on \<^verbatim>\<open>null\<close>, the property of an object,
  \<^verbatim>\<open>undefined\<close> on a primitive or an array.
\<close>

fun getProp :: "jsval \<Rightarrow> string \<Rightarrow> error + jsval option" where
  "getProp JNull k = Inl TypeError"
| "getProp (JObj m) k = Inr (m k)"
| "getProp _ k = Inr None"

text \<open>
  \<^verbatim>\<open>s.toLowerCase()\<close> is the host's: the lower-casing of Unicode, by a table that is
  not part of the repository. It is a parameter \<open>toLowerCase\<close> of every definition that
  calls it, and what is proved holds for whatever function the host supplies. Calling
  the method on anything but a string is a TypeError.
\<close>

definition toLowerCase_call :: "(string \<Rightarrow> string) \<Rightarrow> jsval option \<Rightarrow> error + string" where
  "toLowerCase_call toLowerCase v =
     (case v of Some (JStr s) \<Rightarrow> Inr (toLowerCase s) | _ \<Rightarrow> Inl TypeError)"

text \<open>\<^verbatim>\<open>a && b\<close> on conditions that may throw: \<open>b\<close> counts only when \<open>a\<close> is true.\<close>

definition andAlso :: "error + bool \<Rightarrow> error + bool \<Rightarrow> error + bool" where
  "andAlso a b = (case a of Inl e \<Rightarrow> Inl e | Inr False \<Rightarrow> Inr False | Inr True \<Rightarrow> b)"

subsection \<open>Numbers to text\<close>

text \<open>
  \<^verbatim>\<open>n.toString()\<close> and \<^verbatim>\<open>${n}\<close> of an integer (decimal, as JavaScript prints every
  integer below \<open>10\<^sup>2\<^sup>1\<close>), and \<^verbatim>\<open>s.padStart(n, c)\<close>.
\<close>

definition digit_char :: "nat \<Rightarrow> char" where
  "digit_char d = ''0123456789'' ! d"

fun digits :: "nat \<Rightarrow> string" where
  "digits n = (if n < 10 then [digit_char n] else digits (n div 10) @ [digit_char (n mod 10)])"

definition toString :: "int \<Rightarrow> string" where
  "toString i = (if i < 0 then CHR ''-'' # digits (nat (- i)) else digits (nat i))"

definition padStart :: "nat \<Rightarrow> char \<Rightarrow> string \<Rightarrow> string" where
  "padStart n c s = replicate (n - length s) c @ s"

subsection \<open>The clock\<close>

text \<open>
  What \<^verbatim>\<open>Date\<close> answers during one operation: \<^verbatim>\<open>new Date().getFullYear()\<close>,
  \<^verbatim>\<open>Date.now()\<close> and \<^verbatim>\<open>new Date().toISOString()\<close>. They are inputs of the operation.
\<close>

record clock =
  getFullYear :: int
  now :: int
  toISOString :: string

subsection \<open>Local storage and JSON\<close>

text \<open>
  A slot holds a string or nothing. A string is modelled by what \<^verbatim>\<open>JSON.parse\<close> makes
  of it: the empty string, a non-empty string that is not JSON, or the JSON text of a
  value. \<^verbatim>\<open>JSON.stringify\<close> of a value gives a text that parses back to the value.
  Storage counts the calls of \<^verbatim>\<open>setItem\<close>, so that a write is visible even when it
  writes what was there. A write is taken to succeed (no quota).
\<close>

datatype stored_text = EmptyText | InvalidText | JsonText jsval

record localStorage =
  items :: "string \<Rightarrow> stored_text option"
  setItemCalls :: nat

definition getItem :: "localStorage \<Rightarrow> string \<Rightarrow> stored_text option" where
  "getItem ls k = items ls k"

definition setItem :: "string \<Rightarrow> stored_text \<Rightarrow> localStorage \<Rightarrow> localStorage" where
  "setItem k t ls = ls\<lparr>items := (items ls)(k \<mapsto> t), setItemCalls := Suc (setItemCalls ls)\<rparr>"

text \<open>
  \<^verbatim>\<open>JSON.parse\<close> of what \<^verbatim>\<open>getItem\<close> returned. It turns its argument into a string
  first, so \<^verbatim>\<open>null\<close> is read as the text \<^verbatim>\<open>null\<close>.
\<close>

fun JSON_parse :: "stored_text option \<Rightarrow> error + jsval" where
  "JSON_parse None = Inr JNull"
| "JSON_parse (Some EmptyText) = Inl SyntaxError"
| "JSON_parse (Some InvalidText) = Inl SyntaxError"
| "JSON_parse (Some (JsonText v)) = Inr v"

definition JSON_stringify :: "jsval \<Rightarrow> stored_text" where
  "JSON_stringify v = JsonText v"

text \<open>\<^verbatim>\<open>stored ? ... : ...\<close> on what \<^verbatim>\<open>getItem\<close> returned: \<^verbatim>\<open>null\<close> and \<^verbatim>\<open>""\<close> are falsy.\<close>

fun truthy_text :: "stored_text option \<Rightarrow> bool" where
  "truthy_text None = False"
| "truthy_text (Some EmptyText) = False"
| "truthy_text (Some InvalidText) = True"
| "truthy_text (Some (JsonText v)) = True"

subsection \<open>Array methods\<close>

text \<open>
  \<^verbatim>\<open>findIndex\<close>, \<^verbatim>\<open>find\<close> and \<^verbatim>\<open>some\<close> call the predicate on the elements from the
  left and stop at the first one it accepts; an exception of the predicate ends the
  call. \<^verbatim>\<open>findIndex\<close> answers \<open>-1\<close> when there is none.
\<close>

fun findIndex_from :: "(jsval \<Rightarrow> error + bool) \<Rightarrow> jsval list \<Rightarrow> int \<Rightarrow> error + int" where
  "findIndex_from p [] i = Inr (- 1)"
| "findIndex_from p (x # xs) i =
     (case p x of Inl e \<Rightarrow> Inl e | Inr True \<Rightarrow> Inr i | Inr False \<Rightarrow> findIndex_from p xs (i + 1))"

definition findIndex :: "(jsval \<Rightarrow> error + bool) \<Rightarrow> jsval list \<Rightarrow> error + int" where
  "findIndex p xs = findIndex_from p xs 0"

fun find_js :: "(jsval \<Rightarrow> error + bool) \<Rightarrow> jsval list \<Rightarrow> error + jsval option" where
  "find_js p [] = Inr None"
| "find_js p (x # xs) =
     (case p x of Inl e \<Rightarrow> Inl e | Inr True \<Rightarrow> Inr (Some x) | Inr False \<Rightarrow> find_js p xs)"

fun some_js :: "(jsval \<Rightarrow> error + bool) \<Rightarrow> jsval list \<Rightarrow> error + bool" where
  "some_js p [] = Inr False"
| "some_js p (x # xs) =
     (case p x of Inl e \<Rightarrow> Inl e | Inr True \<Rightarrow> Inr True | Inr False \<Rightarrow> some_js p xs)"

text \<open>\<^verbatim>\<open>bills.splice(i, 1)\<close> for an index inside the array.\<close>

definition splice1 :: "nat \<Rightarrow> 'a list \<Rightarrow> 'a list" where
  "splice1 i xs = take i xs @ drop (Suc i) xs"

text \<open>The predicate \<^verbatim>\<open>bill => bill.id === id\<close>, with \<open>id\<close> a string.\<close>

definition hasId :: "string \<Rightarrow> jsval \<Rightarrow> error + bool" where
  "hasId i bill =
     (case getProp bill ''id'' of Inl e \<Rightarrow> Inl e | Inr v \<Rightarrow> Inr (strict_eq v (Some (JStr i))))"

subsection \<open>billStorage.js\<close>

definition BILLS_STORAGE_KEY :: string where
  "BILLS_STORAGE_KEY = ''saved_bills''"

definition getSavedBills :: "localStorage \<Rightarrow> error + jsval" where
  "getSavedBills ls =
     (let stored = getItem ls BILLS_STORAGE_KEY
      in if truthy_text stored then JSON_parse stored else Inr (JArr []))"

text \<open>
  In every operation, a parsed value that is not an array ends in a TypeError before
  anything is written: it has no \<^verbatim>\<open>push\<close>, \<^verbatim>\<open>findIndex\<close>, \<^verbatim>\<open>find\<close> or \<^verbatim>\<open>some\<close>
  to call. Where an element has been located by its id, the element is an object (lemma
  \<open>hasId_True\<close>), so the branch for another kind of element is never taken.
\<close>

definition saveBill :: "clock \<Rightarrow> obj \<Rightarrow> localStorage \<Rightarrow> (error + obj) \<times> localStorage" where
  "saveBill c billData ls =
     (case getSavedBills ls of
        Inl e \<Rightarrow> (Inl e, ls)
      | Inr (JArr bills) \<Rightarrow>
          (let invoiceNumber =
                 ''INV-'' @ toString (getFullYear c) @ ''-'' @
                 padStart 3 (CHR ''0'') (toString (int (length bills) + 1));
               newBill = billData
                 (''id'' \<mapsto> JStr (toString (now c)),
                  ''invoiceNumber'' \<mapsto> JStr invoiceNumber,
                  ''status'' \<mapsto> JStr ''Pending'',
                  ''createdAt'' \<mapsto> JStr (toISOString c));
               bills' = bills @ [JObj newBill]
           in (Inr newBill, setItem BILLS_STORAGE_KEY (JSON_stringify (JArr bills')) ls))
      | Inr _ \<Rightarrow> (Inl TypeError, ls))"

definition updateBill ::
  "clock \<Rightarrow> string \<Rightarrow> obj \<Rightarrow> localStorage \<Rightarrow> (error + obj) \<times> localStorage" where
  "updateBill c i billData ls =
     (case getSavedBills ls of
        Inl e \<Rightarrow> (Inl e, ls)
      | Inr (JArr bills) \<Rightarrow>
          (case findIndex (hasId i) bills of
             Inl e \<Rightarrow> (Inl e, ls)
           | Inr billIndex \<Rightarrow>
               if billIndex = - 1 then (Inl (Error ''Bill not found''), ls)
               else
                 (case bills ! nat billIndex of
                    JObj existingBill \<Rightarrow>
                      (let updatedBill = (existingBill ++ billData)
                             (''id'' := existingBill ''id'',
                              ''invoiceNumber'' := existingBill ''invoiceNumber'',
                              ''createdAt'' := existingBill ''createdAt'',
                              ''updatedAt'' \<mapsto> JStr (toISOString c));
                           bills' = bills[nat billIndex := JObj updatedBill]
                       in (Inr updatedBill,
                           setItem BILLS_STORAGE_KEY (JSON_stringify (JArr bills')) ls))
                  | _ \<Rightarrow> (Inl TypeError, ls)))
      | Inr _ \<Rightarrow> (Inl TypeError, ls))"

text \<open>
  \<^verbatim>\<open>bills.find(...) || null\<close>: the result is the element found, or \<^verbatim>\<open>null\<close> when there
  is none (or when the element is falsy).
\<close>

definition getBillById :: "string \<Rightarrow> localStorage \<Rightarrow> error + jsval" where
  "getBillById i ls =
     (case getSavedBills ls of
        Inl e \<Rightarrow> Inl e
      | Inr (JArr bills) \<Rightarrow>
          (case find_js (hasId i) bills of
             Inl e \<Rightarrow> Inl e
           | Inr None \<Rightarrow> Inr JNull
           | Inr (Some bill) \<Rightarrow> Inr (if truthy bill then bill else JNull))
      | Inr _ \<Rightarrow> Inl TypeError)"

definition updateBillStatus ::
  "clock \<Rightarrow> string \<Rightarrow> string \<Rightarrow> localStorage \<Rightarrow> (error + unit) \<times> localStorage" where
  "updateBillStatus c i status ls =
     (case getSavedBills ls of
        Inl e \<Rightarrow> (Inl e, ls)
      | Inr (JArr bills) \<Rightarrow>
          (case findIndex (hasId i) bills of
             Inl e \<Rightarrow> (Inl e, ls)
           | Inr billIndex \<Rightarrow>
               if billIndex \<noteq> - 1 then
                 (case bills ! nat billIndex of
                    JObj bill \<Rightarrow>
                      (let bill' = bill(''status'' \<mapsto> JStr status,
                                        ''updatedAt'' \<mapsto> JStr (toISOString c));
                           bills' = bills[nat billIndex := JObj bill']
                       in (Inr (),
                           setItem BILLS_STORAGE_KEY (JSON_stringify (JArr bills')) ls))
                  | _ \<Rightarrow> (Inl TypeError, ls))
               else (Inr (), ls))
      | Inr _ \<Rightarrow> (Inl TypeError, ls))"

definition deleteBill :: "string \<Rightarrow> localStorage \<Rightarrow> (error + bool) \<times> localStorage" where
  "deleteBill i ls =
     (case getSavedBills ls of
        Inl e \<Rightarrow> (Inl e, ls)
      | Inr (JArr bills) \<Rightarrow>
          (case findIndex (hasId i) bills of
             Inl e \<Rightarrow> (Inl e, ls)
           | Inr billIndex \<Rightarrow>
               if billIndex \<noteq> - 1 then
                 (let bills' = splice1 (nat billIndex) bills
                  in (Inr True, setItem BILLS_STORAGE_KEY (JSON_stringify (JArr bills')) ls))
               else (Inr False, ls))
      | Inr _ \<Rightarrow> (Inl TypeError, ls))"

subsection \<open>billstorage2.js\<close>

definition BILLS_STORAGE_KEY2 :: string where
  "BILLS_STORAGE_KEY2 = ''saved_bills02''"

definition getSavedBills2 :: "localStorage \<Rightarrow> error + jsval" where
  "getSavedBills2 ls =
     (let stored = getItem ls BILLS_STORAGE_KEY2
      in if truthy_text stored then JSON_parse stored else Inr (JArr []))"

text \<open>
  The predicate of the duplicate check, for one stored \<open>bill\<close>:
  \<^verbatim>\<open>bill.customer.toLowerCase() === billData.customer.toLowerCase() && ... &&
  bill.invoice === billData.invoice\<close>.
\<close>

definition sameLower ::
  "(string \<Rightarrow> string) \<Rightarrow> jsval \<Rightarrow> obj \<Rightarrow> string \<Rightarrow> error + bool" where
  "sameLower toLowerCase bill billData k =
     (case getProp bill k of
        Inl e \<Rightarrow> Inl e
      | Inr v \<Rightarrow>
          (case toLowerCase_call toLowerCase v of
             Inl e \<Rightarrow> Inl e
           | Inr a \<Rightarrow>
               (case toLowerCase_call toLowerCase (billData k) of
                  Inl e \<Rightarrow> Inl e
                | Inr b \<Rightarrow> Inr (a = b))))"

definition sameInvoice :: "jsval \<Rightarrow> obj \<Rightarrow> error + bool" where
  "sameInvoice bill billData =
     (case getProp bill ''invoice'' of
        Inl e \<Rightarrow> Inl e
      | Inr v \<Rightarrow> Inr (strict_eq v (billData ''invoice'')))"

definition isDuplicateOf :: "(string \<Rightarrow> string) \<Rightarrow> obj \<Rightarrow> jsval \<Rightarrow> error + bool" where
  "isDuplicateOf toLowerCase billData bill =
     andAlso (sameLower toLowerCase bill billData ''customer'')
       (andAlso (sameLower toLowerCase bill billData ''address'')
          (andAlso (sameLower toLowerCase bill billData ''city'')
             (sameInvoice bill billData)))"

definition saveBill2 ::
  "(string \<Rightarrow> string) \<Rightarrow> clock \<Rightarrow> obj \<Rightarrow> localStorage \<Rightarrow> (error + obj) \<times> localStorage" where
  "saveBill2 toLowerCase c billData ls =
     (case getSavedBills2 ls of
        Inl e \<Rightarrow> (Inl e, ls)
      | Inr (JArr bills) \<Rightarrow>
          (case some_js (isDuplicateOf toLowerCase billData) bills of
             Inl e \<Rightarrow> (Inl e, ls)
           | Inr isDuplicate \<Rightarrow>
               if isDuplicate
               then (Inl (Error ''Bill with same customer details and invoice number already exists''), ls)
               else
                 (let invoiceNumber =
                        ''INV-'' @ toString (getFullYear c) @ ''-'' @
                        padStart 3 (CHR ''0'') (toString (int (length bills) + 1));
                      newBill = billData
                        (''id'' \<mapsto> JStr (toString (now c)),
                         ''invoiceNumber'' \<mapsto> JStr invoiceNumber,
                         ''status'' \<mapsto> JStr ''Pending'',
                         ''createdAt'' \<mapsto> JStr (toISOString c));
                      bills' = bills @ [JObj newBill]
                  in (Inr newBill,
                      setItem BILLS_STORAGE_KEY2 (JSON_stringify (JArr bills')) ls)))
      | Inr _ \<Rightarrow> (Inl TypeError, ls))"

definition updateBill2 ::
  "clock \<Rightarrow> string \<Rightarrow> obj \<Rightarrow> localStorage \<Rightarrow> (error + obj) \<times> localStorage" where
  "updateBill2 c i billData ls =
     (case getSavedBills2 ls of
        Inl e \<Rightarrow> (Inl e, ls)
      | Inr (JArr bills) \<Rightarrow>
          (case findIndex (hasId i) bills of
             Inl e \<Rightarrow> (Inl e, ls)
           | Inr billIndex \<Rightarrow>
               if billIndex = - 1 then (Inl (Error ''Bill not found''), ls)
               else
                 (case bills ! nat billIndex of
                    JObj existingBill \<Rightarrow>
                      (let updatedBill = (existingBill ++ billData)
                             (''id'' := existingBill ''id'',
                              ''invoiceNumber'' := existingBill ''invoiceNumber'',
                              ''createdAt'' := existingBill ''createdAt'',
                              ''updatedAt'' \<mapsto> JStr (toISOString c));
                           bills' = bills[nat billIndex := JObj updatedBill]
                       in (Inr updatedBill,
                           setItem BILLS_STORAGE_KEY2 (JSON_stringify (JArr bills')) ls))
                  | _ \<Rightarrow> (Inl TypeError, ls)))
      | Inr _ \<Rightarrow> (Inl TypeError, ls))"

definition getBillById2 :: "string \<Rightarrow> localStorage \<Rightarrow> error + jsval" where
  "getBillById2 i ls =
     (case getSavedBills2 ls of
        Inl e \<Rightarrow> Inl e
      | Inr (JArr bills) \<Rightarrow>
          (case find_js (hasId i) bills of
             Inl e \<Rightarrow> Inl e
           | Inr None \<Rightarrow> Inr JNull
           | Inr (Some bill) \<Rightarrow> Inr (if truthy bill then bill else JNull))
      | Inr _ \<Rightarrow> Inl TypeError)"

definition updateBillStatus2 ::
  "clock \<Rightarrow> string \<Rightarrow> string \<Rightarrow> localStorage \<Rightarrow> (error + unit) \<times> localStorage" where
  "updateBillStatus2 c i status ls =
     (case getSavedBills2 ls of
        Inl e \<Rightarrow> (Inl e, ls)
      | Inr (JArr bills) \<Rightarrow>
          (case findIndex (hasId i) bills of
             Inl e \<Rightarrow> (Inl e, ls)
           | Inr billIndex \<Rightarrow>
               if billIndex \<noteq> - 1 then
                 (case bills ! nat billIndex of
                    JObj bill \<Rightarrow>
                      (let bill' = bill(''status'' \<mapsto> JStr status,
                                        ''updatedAt'' \<mapsto> JStr (toISOString c));
                           bills' = bills[nat billIndex := JObj bill']
                       in (Inr (),
                           setItem BILLS_STORAGE_KEY2 (JSON_stringify (JArr bills')) ls))
                  | _ \<Rightarrow> (Inl TypeError, ls))
               else (Inr (), ls))
      | Inr _ \<Rightarrow> (Inl TypeError, ls))"

definition deleteBill2 :: "string \<Rightarrow> localStorage \<Rightarrow> (error + bool) \<times> localStorage" where
  "deleteBill2 i ls =
     (case getSavedBills2 ls of
        Inl e \<Rightarrow> (Inl e, ls)
      | Inr (JArr bills) \<Rightarrow>
          (case findIndex (hasId i) bills of
             Inl e \<Rightarrow> (Inl e, ls)
           | Inr billIndex \<Rightarrow>
               if billIndex \<noteq> - 1 then
                 (let bills' = splice1 (nat billIndex) bills
                  in (Inr True, setItem BILLS_STORAGE_KEY2 (JSON_stringify (JArr bills')) ls))
               else (Inr False, ls))
      | Inr _ \<Rightarrow> (Inl TypeError, ls))"

subsection \<open>Records with customer details\<close>

text \<open>
  What the specification says of duplicates, stated on records and apart from the code
  of the modules. The documented shape of a record (\<^verbatim>\<open>SavedBill2\<close>) has strings under
  \<^verbatim>\<open>customer\<close>, \<^verbatim>\<open>address\<close>, \<^verbatim>\<open>city\<close> and \<^verbatim>\<open>invoice\<close>: \<open>hasDetails\<close> says so of an
  object, and \<open>detail\<close> reads such a string.
\<close>

fun isString :: "jsval option \<Rightarrow> bool" where
  "isString (Some (JStr s)) = True"
| "isString _ = False"

definition hasDetails :: "obj \<Rightarrow> bool" where
  "hasDetails r =
     (isString (r ''customer'') \<and> isString (r ''address'') \<and> isString (r ''city'') \<and>
      isString (r ''invoice''))"

definition detail :: "obj \<Rightarrow> string \<Rightarrow> string" where
  "detail r k = (case r k of Some (JStr s) \<Rightarrow> s | _ \<Rightarrow> [])"

text \<open>
  Two records are the same bill when customer, address and city are equal without
  regard to case and the invoice references are equal as they are. Without regard to
  case is meant in two ways. \<open>sameDetails\<close> takes it from the host: equal after the
  host's lower-casing, on any text. \<open>sameDetailsIgnoringCase\<close> says it letter by letter,
  with no lower-casing function at all: the two strings have the same length, and at
  each place the same character or the capital and the small form of one letter of
  A to Z.
\<close>

definition sameDetails :: "(string \<Rightarrow> string) \<Rightarrow> obj \<Rightarrow> obj \<Rightarrow> bool" where
  "sameDetails toLowerCase bill billData =
     (toLowerCase (detail bill ''customer'') = toLowerCase (detail billData ''customer'') \<and>
      toLowerCase (detail bill ''address'') = toLowerCase (detail billData ''address'') \<and>
      toLowerCase (detail bill ''city'') = toLowerCase (detail billData ''city'') \<and>
      detail bill ''invoice'' = detail billData ''invoice'')"

definition asciiCasePairs :: "(char \<times> char) list" where
  "asciiCasePairs = zip ''ABCDEFGHIJKLMNOPQRSTUVWXYZ'' ''abcdefghijklmnopqrstuvwxyz''"

definition sameLetter :: "char \<Rightarrow> char \<Rightarrow> bool" where
  "sameLetter a b = (a = b \<or> (a, b) \<in> set asciiCasePairs \<or> (b, a) \<in> set asciiCasePairs)"

definition equalIgnoringCase :: "string \<Rightarrow> string \<Rightarrow> bool" where
  "equalIgnoringCase a b = list_all2 sameLetter a b"

definition sameDetailsIgnoringCase :: "obj \<Rightarrow> obj \<Rightarrow> bool" where
  "sameDetailsIgnoringCase bill billData =
     (equalIgnoringCase (detail bill ''customer'') (detail billData ''customer'') \<and>
      equalIgnoringCase (detail bill ''address'') (detail billData ''address'') \<and>
      equalIgnoringCase (detail bill ''city'') (detail billData ''city'') \<and>
      detail bill ''invoice'' = detail billData ''invoice'')"

text \<open>
  The letter-by-letter reading is for text in ASCII. There the lower-casing of Unicode
  is known without its table: each of A to Z becomes its small form, and every other
  character of ASCII stays. \<open>lowersAscii\<close> says of a function that it does so.
\<close>

definition isAscii :: "string \<Rightarrow> bool" where
  "isAscii s = list_all (\<lambda>ch. (of_char ch :: nat) < 128) s"

definition asciiDetails :: "obj \<Rightarrow> bool" where
  "asciiDetails r =
     (isAscii (detail r ''customer'') \<and> isAscii (detail r ''address'') \<and>
      isAscii (detail r ''city''))"

definition asciiLower :: "char \<Rightarrow> char" where
  "asciiLower ch = (case map_of asciiCasePairs ch of Some l \<Rightarrow> l | None \<Rightarrow> ch)"

definition lowersAscii :: "(string \<Rightarrow> string) \<Rightarrow> bool" where
  "lowersAscii toLowerCase = (\<forall>s. isAscii s \<longrightarrow> toLowerCase s = map asciiLower s)"

subsection \<open>The pattern of an invoice number\<close>

text \<open>
  The specification's pattern \<^verbatim>\<open>INV-<4-digit year>-<3-digit sequence>\<close>, and the number
  that a string of decimal digits stands for. These are not code of the modules; they
  state what is claimed of the invoice numbers that the modules build.
\<close>

definition isDigits :: "string \<Rightarrow> bool" where
  "isDigits s = list_all (\<lambda>ch. ch \<in> set ''0123456789'') s"

definition digit_value :: "char \<Rightarrow> nat" where
  "digit_value ch =
     (case map_of (zip ''0123456789'' [0, 1, 2, 3, 4, 5, 6, 7, 8, 9]) ch of
        Some d \<Rightarrow> d
      | None \<Rightarrow> 0)"

definition decimal :: "string \<Rightarrow> nat" where
  "decimal s = foldl (\<lambda>a ch. 10 * a + digit_value ch) 0 s"

definition invoicePattern :: "string \<Rightarrow> bool" where
  "invoicePattern s =
     (length s = 12 \<and> take 4 s = ''INV-'' \<and> isDigits (take 4 (drop 4 s)) \<and>
      take 1 (drop 8 s) = ''-'' \<and> isDigits (drop 9 s))"

subsection \<open>Example data\<close>

text \<open>Two stored records, a storage that holds them under both keys, and a clock.\<close>

definition acme :: obj where
  "acme = [''id'' \<mapsto> JStr ''1700000000000'', ''customer'' \<mapsto> JStr ''Acme Corp'',
     ''address'' \<mapsto> JStr ''1 Main St'', ''city'' \<mapsto> JStr ''Pune'', ''invoice'' \<mapsto> JStr ''A-17'',
     ''invoiceNumber'' \<mapsto> JStr ''INV-2023-001'', ''status'' \<mapsto> JStr ''Pending'',
     ''createdAt'' \<mapsto> JStr ''2023-11-14T22:13:20.000Z'']"

definition bolt :: obj where
  "bolt = [''id'' \<mapsto> JStr ''1700000000500'', ''customer'' \<mapsto> JStr ''Bolt Ltd'',
     ''address'' \<mapsto> JStr ''9 Side Rd'', ''city'' \<mapsto> JStr ''Goa'', ''invoice'' \<mapsto> JStr ''B-02'',
     ''invoiceNumber'' \<mapsto> JStr ''INV-2023-002'', ''status'' \<mapsto> JStr ''Pending'',
     ''createdAt'' \<mapsto> JStr ''2023-11-14T22:13:20.500Z'']"

definition twoBills :: localStorage where
  "twoBills = \<lparr>items = [BILLS_STORAGE_KEY \<mapsto> JsonText (JArr [JObj acme, JObj bolt]),
                          BILLS_STORAGE_KEY2 \<mapsto> JsonText (JArr [JObj acme, JObj bolt])],
               setItemCalls = 0\<rparr>"

definition noon :: clock where
  "noon = \<lparr>getFullYear = 2025, now = 1750000000000,
            toISOString = ''2025-06-15T15:06:40.000Z''\<rparr>"

definition zed :: obj where
  "zed = [''customer'' \<mapsto> JStr ''Zed Co'', ''address'' \<mapsto> JStr ''5 Low Ln'',
     ''city'' \<mapsto> JStr ''Pune'', ''invoice'' \<mapsto> JStr ''Z-1'', ''status'' \<mapsto> JStr ''Paid'']"

definition yak :: obj where
  "yak = [''customer'' \<mapsto> JStr ''Yak Inc'', ''address'' \<mapsto> JStr ''2 High St'',
     ''city'' \<mapsto> JStr ''Agra'', ''invoice'' \<mapsto> JStr ''Y-8'']"

text \<open>
  Storages with nothing under the two keys, with a text that is not JSON, and with the
  JSON text of an object.
\<close>

definition emptyStorage :: localStorage where
  "emptyStorage = \<lparr>items = Map.empty, setItemCalls = 0\<rparr>"

definition brokenStorage :: localStorage where
  "brokenStorage = \<lparr>items = [BILLS_STORAGE_KEY \<mapsto> InvalidText, BILLS_STORAGE_KEY2 \<mapsto> InvalidText],
                    setItemCalls = 0\<rparr>"

definition objectStorage :: localStorage where
  "objectStorage = \<lparr>items = [BILLS_STORAGE_KEY \<mapsto> JsonText (JObj acme),
                               BILLS_STORAGE_KEY2 \<mapsto> JsonText (JObj acme)],
                    setItemCalls = 0\<rparr>"

text \<open>A storage that holds 999 records under both keys, as after 999 saves.\<close>

definition manyBills :: "jsval list" where
  "manyBills =
     map (\<lambda>n. JObj (acme(''id'' \<mapsto> JStr (toString (1700000000000 + int n)),
                         ''invoice'' \<mapsto> JStr (''A-'' @ toString (int n)))))
       [0 ..< 999]"

definition fullStorage :: localStorage where
  "fullStorage = \<lparr>items = [BILLS_STORAGE_KEY \<mapsto> JsonText (JArr manyBills),
                             BILLS_STORAGE_KEY2 \<mapsto> JsonText (JArr manyBills)],
                  setItemCalls = 999\<rparr>"

text \<open>What a form holds for the first record, and the same in capitals.\<close>

definition acmeForm :: obj where
  "acmeForm = [''customer'' \<mapsto> JStr ''Acme Corp'', ''address'' \<mapsto> JStr ''1 Main St'',
     ''city'' \<mapsto> JStr ''Pune'', ''invoice'' \<mapsto> JStr ''A-17'']"

definition acmeUpper :: obj where
  "acmeUpper = [''customer'' \<mapsto> JStr ''ACME CORP'', ''address'' \<mapsto> JStr ''1 MAIN ST'',
     ''city'' \<mapsto> JStr ''PUNE'', ''invoice'' \<mapsto> JStr ''A-17'']"

text \<open>
  A host's lower-casing for the examples: what \<^verbatim>\<open>toLowerCase\<close> does to text written
  with the characters of ASCII and of Latin-1. In UTF-8 a letter of Latin-1 is the byte
  \<open>0xC3\<close> and a second byte; the capitals \<open>U+00C0\<close> to \<open>U+00DE\<close> (but for the
  multiplication sign \<open>U+00D7\<close>) have their small forms 32 places on.
\<close>

definition latin1Lower :: "char \<Rightarrow> char" where
  "latin1Lower ch =
     (case map_of (zip
        [CHR 0x80, CHR 0x81, CHR 0x82, CHR 0x83, CHR 0x84, CHR 0x85, CHR 0x86, CHR 0x87,
         CHR 0x88, CHR 0x89, CHR 0x8A, CHR 0x8B, CHR 0x8C, CHR 0x8D, CHR 0x8E, CHR 0x8F,
         CHR 0x90, CHR 0x91, CHR 0x92, CHR 0x93, CHR 0x94, CHR 0x95, CHR 0x96, CHR 0x98,
         CHR 0x99, CHR 0x9A, CHR 0x9B, CHR 0x9C, CHR 0x9D, CHR 0x9E]
        [CHR 0xA0, CHR 0xA1, CHR 0xA2, CHR 0xA3, CHR 0xA4, CHR 0xA5, CHR 0xA6, CHR 0xA7,
         CHR 0xA8, CHR 0xA9, CHR 0xAA, CHR 0xAB, CHR 0xAC, CHR 0xAD, CHR 0xAE, CHR 0xAF,
         CHR 0xB0, CHR 0xB1, CHR 0xB2, CHR 0xB3, CHR 0xB4, CHR 0xB5, CHR 0xB6, CHR 0xB8,
         CHR 0xB9, CHR 0xBA, CHR 0xBB, CHR 0xBC, CHR 0xBD, CHR 0xBE]) ch of
        Some l \<Rightarrow> l
      | None \<Rightarrow> ch)"

fun lowerLatin :: "string \<Rightarrow> string" where
  "lowerLatin [] = []"
| "lowerLatin [ch] = [asciiLower ch]"
| "lowerLatin (ch # ch' # s) =
     (if ch = CHR 0xC3 then ch # latin1Lower ch' # lowerLatin s
      else asciiLower ch # lowerLatin (ch' # s))"

text \<open>
  A form with a customer written in capitals with an accented letter (\<^verbatim>\<open>CAF\<close> and
  \<open>U+00C9\<close>), and the same in small letters (\<^verbatim>\<open>caf\<close> and \<open>U+00E9\<close>).
\<close>

definition cafeUpper :: obj where
  "cafeUpper = [''customer'' \<mapsto> JStr (''CAF'' @ [CHR 0xC3, CHR 0x89]),
     ''address'' \<mapsto> JStr ''3 Quai'', ''city'' \<mapsto> JStr ''Lyon'', ''invoice'' \<mapsto> JStr ''C-3'']"

definition cafeLower :: obj where
  "cafeLower = [''customer'' \<mapsto> JStr (''caf'' @ [CHR 0xC3, CHR 0xA9]),
     ''address'' \<mapsto> JStr ''3 quai'', ''city'' \<mapsto> JStr ''LYON'', ''invoice'' \<mapsto> JStr ''C-3'']"

section \<open>Properties\<close>

subsection \<open>Auxiliary facts\<close>

declare digits.simps [simp del]

lemma strict_eq_JStr [simp]: "strict_eq v (Some (JStr s)) = (v = Some (JStr s))"
  by (cases "(v, Some (JStr s))" rule: strict_eq.cases) auto

lemma hasId_JObj [simp]: "hasId i (JObj m) = Inr (m ''id'' = Some (JStr i))"
  by (simp add: hasId_def)

text \<open>An element that the predicate accepts is an object that holds the id.\<close>

lemma hasId_True: "hasId i b = Inr True \<Longrightarrow> \<exists>m. b = JObj m \<and> m ''id'' = Some (JStr i)"
  by (cases b) (simp_all add: hasId_def)

lemma findIndex_from_none:
  "\<forall>x\<in>set xs. p x = Inr False \<Longrightarrow> findIndex_from p xs k = Inr (- 1)"
  by (induction xs arbitrary: k) simp_all

lemma findIndex_from_first:
  "\<forall>x\<in>set pre. p x = Inr False \<Longrightarrow> p x = Inr True \<Longrightarrow>
   findIndex_from p (pre @ x # post) k = Inr (k + int (length pre))"
  by (induction pre arbitrary: k) simp_all

lemma findIndex_absent:
  "\<forall>r\<in>set rs. r ''id'' \<noteq> Some (JStr i) \<Longrightarrow> findIndex (hasId i) (map JObj rs) = Inr (- 1)"
  by (simp add: findIndex_def findIndex_from_none)

lemma findIndex_present:
  "\<forall>p\<in>set pre. p ''id'' \<noteq> Some (JStr i) \<Longrightarrow> r ''id'' = Some (JStr i) \<Longrightarrow>
   findIndex (hasId i) (map JObj (pre @ r # post)) = Inr (int (length pre))"
  using findIndex_from_first [of "map JObj pre" "hasId i" "JObj r" "map JObj post" 0]
  by (simp add: findIndex_def)

lemma nth_present: "map JObj (pre @ r # post) ! length pre = JObj r"
  by (simp add: nth_append)

lemma update_present:
  "(map JObj (pre @ r # post))[length pre := JObj u] = map JObj (pre @ u # post)"
  by (simp add: list_update_append)

lemma splice1_present: "splice1 (length pre) (map JObj (pre @ r # post)) = map JObj (pre @ post)"
  by (simp add: splice1_def)

lemma getSavedBills_setItem [simp]:
  "getSavedBills (setItem BILLS_STORAGE_KEY (JSON_stringify v) ls) = Inr v"
  by (simp add: getSavedBills_def setItem_def getItem_def JSON_stringify_def)

lemma getSavedBills2_setItem [simp]:
  "getSavedBills2 (setItem BILLS_STORAGE_KEY2 (JSON_stringify v) ls) = Inr v"
  by (simp add: getSavedBills2_def setItem_def getItem_def JSON_stringify_def)

lemma setItemCalls_setItem [simp]: "setItemCalls (setItem k t ls) = Suc (setItemCalls ls)"
  by (simp add: setItem_def)

lemma getSavedBills_twoBills [simp]:
  "getSavedBills twoBills = Inr (JArr (map JObj [acme, bolt]))"
  "getSavedBills2 twoBills = Inr (JArr (map JObj [acme, bolt]))"
  by (simp_all add: getSavedBills_def getSavedBills2_def getItem_def twoBills_def
      BILLS_STORAGE_KEY_def BILLS_STORAGE_KEY2_def)

lemma acme_id [simp]: "acme ''id'' = Some (JStr ''1700000000000'')"
  by (simp add: acme_def)

lemma bolt_id [simp]: "bolt ''id'' = Some (JStr ''1700000000500'')"
  by (simp add: bolt_def)

subsection \<open>Updating a record that is not there\<close>

lemma updateBill_absent:
  assumes "\<forall>r\<in>set rs. r ''id'' \<noteq> Some (JStr i)"
    and "getSavedBills ls = Inr (JArr (map JObj rs))"
  shows "updateBill c i billData ls = (Inl (Error ''Bill not found''), ls)"
  using assms(2) findIndex_absent [OF assms(1)] by (simp add: updateBill_def)

lemma updateBill2_absent:
  assumes "\<forall>r\<in>set rs. r ''id'' \<noteq> Some (JStr i)"
    and "getSavedBills2 ls = Inr (JArr (map JObj rs))"
  shows "updateBill2 c i billData ls = (Inl (Error ''Bill not found''), ls)"
  using assms(2) findIndex_absent [OF assms(1)] by (simp add: updateBill2_def)

text \<open>
  Claim C3. When the slot holds an array of records \<open>rs\<close> and no record has the id \<open>i\<close>,
  \<^verbatim>\<open>updateBill(i, billData)\<close> (and \<^verbatim>\<open>updateBill2\<close>) throws \<^verbatim>\<open>Error('Bill not found')\<close>
  and the storage after the call is the storage before it: the same slots, and no
  call of \<^verbatim>\<open>setItem\<close>, so \<^verbatim>\<open>getSavedBills()\<close> answers what it answered before.
\<close>

theorem update_unknown_id_not_found:
  assumes "\<forall>r\<in>set rs. r ''id'' \<noteq> Some (JStr i)"
  shows "(getSavedBills ls = Inr (JArr (map JObj rs)) \<longrightarrow>
            updateBill c i billData ls = (Inl (Error ''Bill not found''), ls)) \<and>
         (getSavedBills2 ls = Inr (JArr (map JObj rs)) \<longrightarrow>
            updateBill2 c i billData ls = (Inl (Error ''Bill not found''), ls))"
  using assms by (simp add: updateBill_absent updateBill2_absent)

theorem update_unknown_id_not_found_witness:
  "acme ''id'' \<noteq> Some (JStr ''42'') \<and> bolt ''id'' \<noteq> Some (JStr ''42'') \<and>
   getSavedBills twoBills = Inr (JArr (map JObj [acme, bolt])) \<and>
   getSavedBills2 twoBills = Inr (JArr (map JObj [acme, bolt])) \<and>
   updateBill noon ''42'' [''customer'' \<mapsto> JStr ''Zed''] twoBills =
     (Inl (Error ''Bill not found''), twoBills) \<and>
   updateBill2 noon ''42'' [''customer'' \<mapsto> JStr ''Zed''] twoBills =
     (Inl (Error ''Bill not found''), twoBills)"
  using update_unknown_id_not_found
    [of "[acme, bolt]" "''42''" twoBills noon "[''customer'' \<mapsto> JStr ''Zed'']"]
  by simp

subsection \<open>Setting the status\<close>

lemma updateBillStatus_absent:
  assumes "\<forall>r\<in>set rs. r ''id'' \<noteq> Some (JStr i)"
    and "getSavedBills ls = Inr (JArr (map JObj rs))"
  shows "updateBillStatus c i status ls = (Inr (), ls)"
  using assms(2) findIndex_absent [OF assms(1)] by (simp add: updateBillStatus_def)

lemma updateBillStatus2_absent:
  assumes "\<forall>r\<in>set rs. r ''id'' \<noteq> Some (JStr i)"
    and "getSavedBills2 ls = Inr (JArr (map JObj rs))"
  shows "updateBillStatus2 c i status ls = (Inr (), ls)"
  using assms(2) findIndex_absent [OF assms(1)] by (simp add: updateBillStatus2_def)

text \<open>
  Claim C7. When the slot holds an array of records and none has the id \<open>i\<close>,
  \<^verbatim>\<open>updateBillStatus(i, status)\<close> (and \<^verbatim>\<open>updateBillStatus2\<close>) returns without a value
  and without an exception, for every status, and the storage after the call is the
  storage before it: no record is added, no \<^verbatim>\<open>updatedAt\<close> is set, and \<^verbatim>\<open>setItem\<close> is
  not called.
\<close>

theorem status_update_unknown_id_noop:
  assumes "\<forall>r\<in>set rs. r ''id'' \<noteq> Some (JStr i)"
  shows "(getSavedBills ls = Inr (JArr (map JObj rs)) \<longrightarrow>
            updateBillStatus c i status ls = (Inr (), ls)) \<and>
         (getSavedBills2 ls = Inr (JArr (map JObj rs)) \<longrightarrow>
            updateBillStatus2 c i status ls = (Inr (), ls))"
  using assms by (simp add: updateBillStatus_absent updateBillStatus2_absent)

theorem status_update_unknown_id_noop_witness:
  "acme ''id'' \<noteq> Some (JStr ''7'') \<and> bolt ''id'' \<noteq> Some (JStr ''7'') \<and>
   getSavedBills twoBills = Inr (JArr (map JObj [acme, bolt])) \<and>
   getSavedBills2 twoBills = Inr (JArr (map JObj [acme, bolt])) \<and>
   updateBillStatus noon ''7'' ''Paid'' twoBills = (Inr (), twoBills) \<and>
   updateBillStatus2 noon ''7'' ''Paid'' twoBills = (Inr (), twoBills)"
  using status_update_unknown_id_noop [of "[acme, bolt]" "''7''" twoBills noon "''Paid''"]
  by simp

lemma updateBillStatus_present:
  assumes "\<forall>p\<in>set pre. p ''id'' \<noteq> Some (JStr i)" and "r ''id'' = Some (JStr i)"
    and "getSavedBills ls = Inr (JArr (map JObj (pre @ r # post)))"
  shows "updateBillStatus c i s ls =
           (Inr (), setItem BILLS_STORAGE_KEY (JSON_stringify (JArr (map JObj
              (pre @ r(''status'' \<mapsto> JStr s, ''updatedAt'' \<mapsto> JStr (toISOString c)) # post)))) ls)"
  using assms findIndex_present [of pre i r post]
  by (simp add: updateBillStatus_def nth_present update_present del: map_append list.map)

lemma updateBillStatus2_present:
  assumes "\<forall>p\<in>set pre. p ''id'' \<noteq> Some (JStr i)" and "r ''id'' = Some (JStr i)"
    and "getSavedBills2 ls = Inr (JArr (map JObj (pre @ r # post)))"
  shows "updateBillStatus2 c i s ls =
           (Inr (), setItem BILLS_STORAGE_KEY2 (JSON_stringify (JArr (map JObj
              (pre @ r(''status'' \<mapsto> JStr s, ''updatedAt'' \<mapsto> JStr (toISOString c)) # post)))) ls)"
  using assms findIndex_present [of pre i r post]
  by (simp add: updateBillStatus2_def nth_present update_present del: map_append list.map)

text \<open>
  Claim C10. The status is not validated. When \<open>r\<close> is the first record with the id
  \<open>i\<close>, \<^verbatim>\<open>updateBillStatus(i, s)\<close> (and \<^verbatim>\<open>updateBillStatus2\<close>) stores \<open>s\<close> as it is
  under \<^verbatim>\<open>status\<close> of that record, for every string \<open>s\<close>, whether or not it is one
  of Paid, Pending and Overdue; it also sets \<^verbatim>\<open>updatedAt\<close>, and leaves the other
  records as they were.
\<close>

theorem status_update_stores_any_string:
  assumes "\<forall>p\<in>set pre. p ''id'' \<noteq> Some (JStr i)" and "r ''id'' = Some (JStr i)"
  shows "(getSavedBills ls = Inr (JArr (map JObj (pre @ r # post))) \<longrightarrow>
            fst (updateBillStatus c i s ls) = Inr () \<and>
            getSavedBills (snd (updateBillStatus c i s ls)) = Inr (JArr (map JObj
              (pre @ r(''status'' \<mapsto> JStr s, ''updatedAt'' \<mapsto> JStr (toISOString c)) # post)))) \<and>
         (getSavedBills2 ls = Inr (JArr (map JObj (pre @ r # post))) \<longrightarrow>
            fst (updateBillStatus2 c i s ls) = Inr () \<and>
            getSavedBills2 (snd (updateBillStatus2 c i s ls)) = Inr (JArr (map JObj
              (pre @ r(''status'' \<mapsto> JStr s, ''updatedAt'' \<mapsto> JStr (toISOString c)) # post))))"
  using assms by (simp add: updateBillStatus_present updateBillStatus2_present del: map_append list.map)

theorem status_update_stores_any_string_witness:
  "acme ''id'' \<noteq> Some (JStr ''1700000000500'') \<and> bolt ''id'' = Some (JStr ''1700000000500'') \<and>
   getSavedBills twoBills = Inr (JArr (map JObj ([acme] @ bolt # []))) \<and>
   getSavedBills2 twoBills = Inr (JArr (map JObj ([acme] @ bolt # []))) \<and>
   fst (updateBillStatus noon ''1700000000500'' ''Cancelled?'' twoBills) = Inr () \<and>
   getSavedBills (snd (updateBillStatus noon ''1700000000500'' ''Cancelled?'' twoBills)) =
     Inr (JArr [JObj acme, JObj (bolt(''status'' \<mapsto> JStr ''Cancelled?'',
        ''updatedAt'' \<mapsto> JStr ''2025-06-15T15:06:40.000Z''))]) \<and>
   fst (updateBillStatus2 noon ''1700000000500'' ''Cancelled?'' twoBills) = Inr () \<and>
   getSavedBills2 (snd (updateBillStatus2 noon ''1700000000500'' ''Cancelled?'' twoBills)) =
     Inr (JArr [JObj acme, JObj (bolt(''status'' \<mapsto> JStr ''Cancelled?'',
        ''updatedAt'' \<mapsto> JStr ''2025-06-15T15:06:40.000Z''))])"
  using status_update_stores_any_string
    [of "[acme]" "''1700000000500''" bolt twoBills "[]" noon "''Cancelled?''"]
  by (simp add: noon_def)

subsection \<open>Updating a stored record\<close>

lemma updateBill_present:
  assumes "\<forall>p\<in>set pre. p ''id'' \<noteq> Some (JStr i)" and "r ''id'' = Some (JStr i)"
    and "getSavedBills ls = Inr (JArr (map JObj (pre @ r # post)))"
    and "u = (r ++ billData)(''id'' := r ''id'', ''invoiceNumber'' := r ''invoiceNumber'',
           ''createdAt'' := r ''createdAt'', ''updatedAt'' \<mapsto> JStr (toISOString c))"
  shows "updateBill c i billData ls =
           (Inr u, setItem BILLS_STORAGE_KEY (JSON_stringify (JArr (map JObj (pre @ u # post)))) ls)"
  using assms findIndex_present [of pre i r post]
  by (simp add: updateBill_def nth_present update_present Let_def del: map_append list.map)

lemma updateBill2_present:
  assumes "\<forall>p\<in>set pre. p ''id'' \<noteq> Some (JStr i)" and "r ''id'' = Some (JStr i)"
    and "getSavedBills2 ls = Inr (JArr (map JObj (pre @ r # post)))"
    and "u = (r ++ billData)(''id'' := r ''id'', ''invoiceNumber'' := r ''invoiceNumber'',
           ''createdAt'' := r ''createdAt'', ''updatedAt'' \<mapsto> JStr (toISOString c))"
  shows "updateBill2 c i billData ls =
           (Inr u, setItem BILLS_STORAGE_KEY2 (JSON_stringify (JArr (map JObj (pre @ u # post)))) ls)"
  using assms findIndex_present [of pre i r post]
  by (simp add: updateBill2_def nth_present update_present Let_def del: map_append list.map)

lemma updated_fields:
  assumes "u = (r ++ billData)(''id'' := r ''id'', ''invoiceNumber'' := r ''invoiceNumber'',
           ''createdAt'' := r ''createdAt'', ''updatedAt'' \<mapsto> JStr (toISOString c))"
  shows "u ''id'' = r ''id'' \<and> u ''invoiceNumber'' = r ''invoiceNumber'' \<and>
         u ''createdAt'' = r ''createdAt'' \<and> u ''updatedAt'' = Some (JStr (toISOString c)) \<and>
         (\<forall>k. k \<notin> {''id'', ''invoiceNumber'', ''createdAt'', ''updatedAt''} \<longrightarrow>
              u k = (r ++ billData) k)"
  using assms by simp

text \<open>
  Claim C2. When \<open>r\<close> is the first record with the id \<open>i\<close>, \<^verbatim>\<open>updateBill(i, billData)\<close>
  (and \<^verbatim>\<open>updateBill2\<close>) returns a record \<open>u\<close> and stores it in the place of \<open>r\<close>, the
  other records as they were. Whatever \<open>billData\<close> holds under \<^verbatim>\<open>id\<close>, \<^verbatim>\<open>invoiceNumber\<close>
  and \<^verbatim>\<open>createdAt\<close>, \<open>u\<close> has the values of \<open>r\<close> there; \<^verbatim>\<open>updatedAt\<close> is the clock's
  time; every other field is the one of \<open>billData\<close> where it has one, and the one of \<open>r\<close>
  otherwise (\<open>r ++ billData\<close>).
\<close>

theorem update_keeps_generated_fields:
  assumes "\<forall>p\<in>set pre. p ''id'' \<noteq> Some (JStr i)" and "r ''id'' = Some (JStr i)"
  shows "(getSavedBills ls = Inr (JArr (map JObj (pre @ r # post))) \<longrightarrow>
            (\<exists>u. fst (updateBill c i billData ls) = Inr u \<and>
                 getSavedBills (snd (updateBill c i billData ls)) =
                   Inr (JArr (map JObj (pre @ u # post))) \<and>
                 u ''id'' = r ''id'' \<and> u ''invoiceNumber'' = r ''invoiceNumber'' \<and>
                 u ''createdAt'' = r ''createdAt'' \<and>
                 u ''updatedAt'' = Some (JStr (toISOString c)) \<and>
                 (\<forall>k. k \<notin> {''id'', ''invoiceNumber'', ''createdAt'', ''updatedAt''} \<longrightarrow>
                      u k = (r ++ billData) k))) \<and>
         (getSavedBills2 ls = Inr (JArr (map JObj (pre @ r # post))) \<longrightarrow>
            (\<exists>u. fst (updateBill2 c i billData ls) = Inr u \<and>
                 getSavedBills2 (snd (updateBill2 c i billData ls)) =
                   Inr (JArr (map JObj (pre @ u # post))) \<and>
                 u ''id'' = r ''id'' \<and> u ''invoiceNumber'' = r ''invoiceNumber'' \<and>
                 u ''createdAt'' = r ''createdAt'' \<and>
                 u ''updatedAt'' = Some (JStr (toISOString c)) \<and>
                 (\<forall>k. k \<notin> {''id'', ''invoiceNumber'', ''createdAt'', ''updatedAt''} \<longrightarrow>
                      u k = (r ++ billData) k)))"
proof -
  define u where "u = (r ++ billData)(''id'' := r ''id'', ''invoiceNumber'' := r ''invoiceNumber'',
           ''createdAt'' := r ''createdAt'', ''updatedAt'' \<mapsto> JStr (toISOString c))"
  note f = updated_fields [OF u_def]
  show ?thesis
  proof (intro conjI impI)
    assume g: "getSavedBills ls = Inr (JArr (map JObj (pre @ r # post)))"
    have "updateBill c i billData ls =
           (Inr u, setItem BILLS_STORAGE_KEY (JSON_stringify (JArr (map JObj (pre @ u # post)))) ls)"
      using assms g u_def by (rule updateBill_present)
    then have "fst (updateBill c i billData ls) = Inr u"
      and "getSavedBills (snd (updateBill c i billData ls)) = Inr (JArr (map JObj (pre @ u # post)))"
      by simp_all
    with f show "\<exists>u. fst (updateBill c i billData ls) = Inr u \<and>
                 getSavedBills (snd (updateBill c i billData ls)) =
                   Inr (JArr (map JObj (pre @ u # post))) \<and>
                 u ''id'' = r ''id'' \<and> u ''invoiceNumber'' = r ''invoiceNumber'' \<and>
                 u ''createdAt'' = r ''createdAt'' \<and>
                 u ''updatedAt'' = Some (JStr (toISOString c)) \<and>
                 (\<forall>k. k \<notin> {''id'', ''invoiceNumber'', ''createdAt'', ''updatedAt''} \<longrightarrow>
                      u k = (r ++ billData) k)"
      by blast
  next
    assume g: "getSavedBills2 ls = Inr (JArr (map JObj (pre @ r # post)))"
    have "updateBill2 c i billData ls =
           (Inr u, setItem BILLS_STORAGE_KEY2 (JSON_stringify (JArr (map JObj (pre @ u # post)))) ls)"
      using assms g u_def by (rule updateBill2_present)
    then have "fst (updateBill2 c i billData ls) = Inr u"
      and "getSavedBills2 (snd (updateBill2 c i billData ls)) = Inr (JArr (map JObj (pre @ u # post)))"
      by simp_all
    with f show "\<exists>u. fst (updateBill2 c i billData ls) = Inr u \<and>
                 getSavedBills2 (snd (updateBill2 c i billData ls)) =
                   Inr (JArr (map JObj (pre @ u # post))) \<and>
                 u ''id'' = r ''id'' \<and> u ''invoiceNumber'' = r ''invoiceNumber'' \<and>
                 u ''createdAt'' = r ''createdAt'' \<and>
                 u ''updatedAt'' = Some (JStr (toISOString c)) \<and>
                 (\<forall>k. k \<notin> {''id'', ''invoiceNumber'', ''createdAt'', ''updatedAt''} \<longrightarrow>
                      u k = (r ++ billData) k)"
      by blast
  qed
qed

theorem update_keeps_generated_fields_witness:
  "acme ''id'' \<noteq> Some (JStr ''1700000000500'') \<and> bolt ''id'' = Some (JStr ''1700000000500'') \<and>
   getSavedBills twoBills = Inr (JArr (map JObj ([acme] @ bolt # []))) \<and>
   getSavedBills2 twoBills = Inr (JArr (map JObj ([acme] @ bolt # []))) \<and>
   (\<exists>u. fst (updateBill noon ''1700000000500''
             [''id'' \<mapsto> JStr ''X'', ''invoiceNumber'' \<mapsto> JStr ''INV-0'', ''createdAt'' \<mapsto> JStr ''never'',
              ''customer'' \<mapsto> JStr ''Bolt Limited''] twoBills) = Inr u \<and>
        getSavedBills (snd (updateBill noon ''1700000000500''
             [''id'' \<mapsto> JStr ''X'', ''invoiceNumber'' \<mapsto> JStr ''INV-0'', ''createdAt'' \<mapsto> JStr ''never'',
              ''customer'' \<mapsto> JStr ''Bolt Limited''] twoBills)) = Inr (JArr [JObj acme, JObj u]) \<and>
        u ''id'' = Some (JStr ''1700000000500'') \<and>
        u ''invoiceNumber'' = Some (JStr ''INV-2023-002'') \<and>
        u ''createdAt'' = Some (JStr ''2023-11-14T22:13:20.500Z'') \<and>
        u ''updatedAt'' = Some (JStr ''2025-06-15T15:06:40.000Z'') \<and>
        u ''customer'' = Some (JStr ''Bolt Limited'') \<and>
        u ''city'' = Some (JStr ''Goa'')) \<and>
   (\<exists>u. fst (updateBill2 noon ''1700000000500''
             [''id'' \<mapsto> JStr ''X'', ''invoiceNumber'' \<mapsto> JStr ''INV-0'', ''createdAt'' \<mapsto> JStr ''never'',
              ''customer'' \<mapsto> JStr ''Bolt Limited''] twoBills) = Inr u \<and>
        getSavedBills2 (snd (updateBill2 noon ''1700000000500''
             [''id'' \<mapsto> JStr ''X'', ''invoiceNumber'' \<mapsto> JStr ''INV-0'', ''createdAt'' \<mapsto> JStr ''never'',
              ''customer'' \<mapsto> JStr ''Bolt Limited''] twoBills)) = Inr (JArr [JObj acme, JObj u]) \<and>
        u ''id'' = Some (JStr ''1700000000500'') \<and>
        u ''invoiceNumber'' = Some (JStr ''INV-2023-002'') \<and>
        u ''createdAt'' = Some (JStr ''2023-11-14T22:13:20.500Z'') \<and>
        u ''updatedAt'' = Some (JStr ''2025-06-15T15:06:40.000Z'') \<and>
        u ''customer'' = Some (JStr ''Bolt Limited'') \<and>
        u ''city'' = Some (JStr ''Goa''))"
proof -
  let ?d = "[''id'' \<mapsto> JStr ''X'', ''invoiceNumber'' \<mapsto> JStr ''INV-0'', ''createdAt'' \<mapsto> JStr ''never'',
              ''customer'' \<mapsto> JStr ''Bolt Limited'']"
  have h1: "\<forall>p\<in>set [acme]. p ''id'' \<noteq> Some (JStr ''1700000000500'')" by simp
  have h2: "bolt ''id'' = Some (JStr ''1700000000500'')" by simp
  have g1: "getSavedBills twoBills = Inr (JArr (map JObj ([acme] @ bolt # [])))" by simp
  have g2: "getSavedBills2 twoBills = Inr (JArr (map JObj ([acme] @ bolt # [])))" by simp
  have k: "''customer'' \<notin> {''id'', ''invoiceNumber'', ''createdAt'', ''updatedAt''}"
    "''city'' \<notin> {''id'', ''invoiceNumber'', ''createdAt'', ''updatedAt''}" by simp_all
  have v: "(bolt ++ ?d) ''customer'' = Some (JStr ''Bolt Limited'')"
    "(bolt ++ ?d) ''city'' = Some (JStr ''Goa'')"
    "bolt ''invoiceNumber'' = Some (JStr ''INV-2023-002'')"
    "bolt ''createdAt'' = Some (JStr ''2023-11-14T22:13:20.500Z'')"
    "toISOString noon = ''2025-06-15T15:06:40.000Z''"
    by (simp_all add: bolt_def map_add_def noon_def)
  note t = update_keeps_generated_fields
    [where pre = "[acme]" and i = "''1700000000500''" and r = bolt and ls = twoBills
       and post = "[]" and c = noon and billData = ?d, OF h1 h2]
  from t g1 obtain u where u: "fst (updateBill noon ''1700000000500'' ?d twoBills) = Inr u"
    "getSavedBills (snd (updateBill noon ''1700000000500'' ?d twoBills)) =
       Inr (JArr (map JObj ([acme] @ u # [])))"
    "u ''id'' = bolt ''id''" "u ''invoiceNumber'' = bolt ''invoiceNumber''"
    "u ''createdAt'' = bolt ''createdAt''" "u ''updatedAt'' = Some (JStr (toISOString noon))"
    "\<forall>k. k \<notin> {''id'', ''invoiceNumber'', ''createdAt'', ''updatedAt''} \<longrightarrow> u k = (bolt ++ ?d) k"
    by blast
  from t g2 obtain w where w: "fst (updateBill2 noon ''1700000000500'' ?d twoBills) = Inr w"
    "getSavedBills2 (snd (updateBill2 noon ''1700000000500'' ?d twoBills)) =
       Inr (JArr (map JObj ([acme] @ w # [])))"
    "w ''id'' = bolt ''id''" "w ''invoiceNumber'' = bolt ''invoiceNumber''"
    "w ''createdAt'' = bolt ''createdAt''" "w ''updatedAt'' = Some (JStr (toISOString noon))"
    "\<forall>k. k \<notin> {''id'', ''invoiceNumber'', ''createdAt'', ''updatedAt''} \<longrightarrow> w k = (bolt ++ ?d) k"
    by blast
  have uc: "u ''customer'' = Some (JStr ''Bolt Limited'')" "u ''city'' = Some (JStr ''Goa'')"
    using u(7) k v(1,2) by metis+
  have wc: "w ''customer'' = Some (JStr ''Bolt Limited'')" "w ''city'' = Some (JStr ''Goa'')"
    using w(7) k v(1,2) by metis+
  have "\<exists>u. fst (updateBill noon ''1700000000500'' ?d twoBills) = Inr u \<and>
        getSavedBills (snd (updateBill noon ''1700000000500'' ?d twoBills)) = Inr (JArr [JObj acme, JObj u]) \<and>
        u ''id'' = Some (JStr ''1700000000500'') \<and>
        u ''invoiceNumber'' = Some (JStr ''INV-2023-002'') \<and>
        u ''createdAt'' = Some (JStr ''2023-11-14T22:13:20.500Z'') \<and>
        u ''updatedAt'' = Some (JStr ''2025-06-15T15:06:40.000Z'') \<and>
        u ''customer'' = Some (JStr ''Bolt Limited'') \<and>
        u ''city'' = Some (JStr ''Goa'')"
    using u(1-6) uc h2 v(3-5) by (intro exI [of _ u]) simp
  moreover have "\<exists>u. fst (updateBill2 noon ''1700000000500'' ?d twoBills) = Inr u \<and>
        getSavedBills2 (snd (updateBill2 noon ''1700000000500'' ?d twoBills)) = Inr (JArr [JObj acme, JObj u]) \<and>
        u ''id'' = Some (JStr ''1700000000500'') \<and>
        u ''invoiceNumber'' = Some (JStr ''INV-2023-002'') \<and>
        u ''createdAt'' = Some (JStr ''2023-11-14T22:13:20.500Z'') \<and>
        u ''updatedAt'' = Some (JStr ''2025-06-15T15:06:40.000Z'') \<and>
        u ''customer'' = Some (JStr ''Bolt Limited'') \<and>
        u ''city'' = Some (JStr ''Goa'')"
    using w(1-6) wc h2 v(3-5) by (intro exI [of _ w]) simp
  ultimately show ?thesis
    using h2 g1 g2 by simp
qed

subsection \<open>Deleting\<close>

lemma deleteBill_absent:
  assumes "\<forall>r\<in>set rs. r ''id'' \<noteq> Some (JStr i)"
    and "getSavedBills ls = Inr (JArr (map JObj rs))"
  shows "deleteBill i ls = (Inr False, ls)"
  using assms findIndex_absent [of rs i] by (simp add: deleteBill_def)

lemma deleteBill2_absent:
  assumes "\<forall>r\<in>set rs. r ''id'' \<noteq> Some (JStr i)"
    and "getSavedBills2 ls = Inr (JArr (map JObj rs))"
  shows "deleteBill2 i ls = (Inr False, ls)"
  using assms findIndex_absent [of rs i] by (simp add: deleteBill2_def)

lemma deleteBill_present:
  assumes "\<forall>p\<in>set pre. p ''id'' \<noteq> Some (JStr j)" and "r ''id'' = Some (JStr j)"
    and "getSavedBills ls = Inr (JArr (map JObj (pre @ r # post)))"
  shows "deleteBill j ls =
           (Inr True, setItem BILLS_STORAGE_KEY (JSON_stringify (JArr (map JObj (pre @ post)))) ls)"
  using assms findIndex_present [of pre j r post]
  by (simp add: deleteBill_def splice1_present del: map_append list.map)

lemma deleteBill2_present:
  assumes "\<forall>p\<in>set pre. p ''id'' \<noteq> Some (JStr j)" and "r ''id'' = Some (JStr j)"
    and "getSavedBills2 ls = Inr (JArr (map JObj (pre @ r # post)))"
  shows "deleteBill2 j ls =
           (Inr True, setItem BILLS_STORAGE_KEY2 (JSON_stringify (JArr (map JObj (pre @ post)))) ls)"
  using assms findIndex_present [of pre j r post]
  by (simp add: deleteBill2_def splice1_present del: map_append list.map)

text \<open>
  Claim C6. On an array of records \<open>rs\<close> none of which has the id \<open>i\<close>,
  \<^verbatim>\<open>deleteBill(i)\<close> (and \<^verbatim>\<open>deleteBill2\<close>) returns \<^verbatim>\<open>false\<close> and the storage is the one
  before the call. On an array \<open>pre @ r # post\<close> where \<open>r\<close> is the first record with the id
  \<open>j\<close>, it returns \<^verbatim>\<open>true\<close> and the array stored afterwards is \<open>pre @ post\<close>: that one
  record is gone, the others are unchanged and in their order.
\<close>

theorem delete_removes_exactly_the_record:
  "(getSavedBills ls = Inr (JArr (map JObj rs)) \<and> (\<forall>r\<in>set rs. r ''id'' \<noteq> Some (JStr i)) \<longrightarrow>
      deleteBill i ls = (Inr False, ls)) \<and>
   (getSavedBills ls = Inr (JArr (map JObj (pre @ r # post))) \<and>
    (\<forall>p\<in>set pre. p ''id'' \<noteq> Some (JStr j)) \<and> r ''id'' = Some (JStr j) \<longrightarrow>
      fst (deleteBill j ls) = Inr True \<and>
      getSavedBills (snd (deleteBill j ls)) = Inr (JArr (map JObj (pre @ post)))) \<and>
   (getSavedBills2 ls = Inr (JArr (map JObj rs)) \<and> (\<forall>r\<in>set rs. r ''id'' \<noteq> Some (JStr i)) \<longrightarrow>
      deleteBill2 i ls = (Inr False, ls)) \<and>
   (getSavedBills2 ls = Inr (JArr (map JObj (pre @ r # post))) \<and>
    (\<forall>p\<in>set pre. p ''id'' \<noteq> Some (JStr j)) \<and> r ''id'' = Some (JStr j) \<longrightarrow>
      fst (deleteBill2 j ls) = Inr True \<and>
      getSavedBills2 (snd (deleteBill2 j ls)) = Inr (JArr (map JObj (pre @ post))))"
proof (intro conjI impI; elim conjE)
  assume "getSavedBills ls = Inr (JArr (map JObj rs))" "\<forall>r\<in>set rs. r ''id'' \<noteq> Some (JStr i)"
  then show "deleteBill i ls = (Inr False, ls)"
    by (simp add: deleteBill_absent)
next
  assume "getSavedBills2 ls = Inr (JArr (map JObj rs))" "\<forall>r\<in>set rs. r ''id'' \<noteq> Some (JStr i)"
  then show "deleteBill2 i ls = (Inr False, ls)"
    by (simp add: deleteBill2_absent)
next
  assume a: "getSavedBills ls = Inr (JArr (map JObj (pre @ r # post)))"
    "\<forall>p\<in>set pre. p ''id'' \<noteq> Some (JStr j)" "r ''id'' = Some (JStr j)"
  show "fst (deleteBill j ls) = Inr True"
    and "getSavedBills (snd (deleteBill j ls)) = Inr (JArr (map JObj (pre @ post)))"
    using deleteBill_present [OF a(2,3,1)] by simp_all
next
  assume a: "getSavedBills2 ls = Inr (JArr (map JObj (pre @ r # post)))"
    "\<forall>p\<in>set pre. p ''id'' \<noteq> Some (JStr j)" "r ''id'' = Some (JStr j)"
  show "fst (deleteBill2 j ls) = Inr True"
    and "getSavedBills2 (snd (deleteBill2 j ls)) = Inr (JArr (map JObj (pre @ post)))"
    using deleteBill2_present [OF a(2,3,1)] by simp_all
qed

theorem delete_removes_exactly_the_record_witness:
  "getSavedBills twoBills = Inr (JArr (map JObj [acme, bolt])) \<and>
   getSavedBills2 twoBills = Inr (JArr (map JObj [acme, bolt])) \<and>
   acme ''id'' \<noteq> Some (JStr ''9'') \<and> bolt ''id'' \<noteq> Some (JStr ''9'') \<and>
   acme ''id'' = Some (JStr ''1700000000000'') \<and>
   deleteBill ''9'' twoBills = (Inr False, twoBills) \<and>
   fst (deleteBill ''1700000000000'' twoBills) = Inr True \<and>
   getSavedBills (snd (deleteBill ''1700000000000'' twoBills)) = Inr (JArr [JObj bolt]) \<and>
   deleteBill2 ''9'' twoBills = (Inr False, twoBills) \<and>
   fst (deleteBill2 ''1700000000000'' twoBills) = Inr True \<and>
   getSavedBills2 (snd (deleteBill2 ''1700000000000'' twoBills)) = Inr (JArr [JObj bolt])"
  using delete_removes_exactly_the_record
    [where ls = twoBills and rs = "[acme, bolt]" and i = "''9''" and pre = "[]" and r = acme
       and post = "[bolt]" and j = "''1700000000000''"]
  by simp

subsection \<open>Saving\<close>

lemma saveBill_array:
  assumes "getSavedBills ls = Inr (JArr bills)"
    and "newBill = billData
          (''id'' \<mapsto> JStr (toString (now c)),
           ''invoiceNumber'' \<mapsto> JStr (''INV-'' @ toString (getFullYear c) @ ''-'' @
              padStart 3 (CHR ''0'') (toString (int (length bills) + 1))),
           ''status'' \<mapsto> JStr ''Pending'',
           ''createdAt'' \<mapsto> JStr (toISOString c))"
  shows "saveBill c billData ls =
           (Inr newBill,
            setItem BILLS_STORAGE_KEY (JSON_stringify (JArr (bills @ [JObj newBill]))) ls)"
  using assms by (simp add: saveBill_def Let_def)

lemma saveBill2_array:
  assumes "getSavedBills2 ls = Inr (JArr bills)"
    and "some_js (isDuplicateOf toLowerCase billData) bills = Inr False"
    and "newBill = billData
          (''id'' \<mapsto> JStr (toString (now c)),
           ''invoiceNumber'' \<mapsto> JStr (''INV-'' @ toString (getFullYear c) @ ''-'' @
              padStart 3 (CHR ''0'') (toString (int (length bills) + 1))),
           ''status'' \<mapsto> JStr ''Pending'',
           ''createdAt'' \<mapsto> JStr (toISOString c))"
  shows "saveBill2 toLowerCase c billData ls =
           (Inr newBill,
            setItem BILLS_STORAGE_KEY2 (JSON_stringify (JArr (bills @ [JObj newBill]))) ls)"
  using assms by (simp add: saveBill2_def Let_def)

lemma newBill_fields:
  assumes "newBill = billData
          (''id'' \<mapsto> JStr i, ''invoiceNumber'' \<mapsto> JStr n, ''status'' \<mapsto> JStr ''Pending'',
           ''createdAt'' \<mapsto> JStr t)"
  shows "newBill ''id'' = Some (JStr i) \<and> newBill ''invoiceNumber'' = Some (JStr n) \<and>
         newBill ''status'' = Some (JStr ''Pending'') \<and> newBill ''createdAt'' = Some (JStr t) \<and>
         (\<forall>k. k \<notin> {''id'', ''invoiceNumber'', ''status'', ''createdAt''} \<longrightarrow> newBill k = billData k)"
  using assms by simp

text \<open>
  Claim C9. On a slot that holds an array \<open>bills\<close>, \<^verbatim>\<open>saveBill(billData)\<close> returns a
  record \<open>newBill\<close> made of the fields of \<open>billData\<close> with \<^verbatim>\<open>id\<close> (the clock's
  milliseconds as text), \<^verbatim>\<open>invoiceNumber\<close>, \<^verbatim>\<open>status\<close> (always \<^verbatim>\<open>Pending\<close>) and
  \<^verbatim>\<open>createdAt\<close> set over them, and stores \<open>bills @ [newBill]\<close> with one call of
  \<^verbatim>\<open>setItem\<close>: what was stored keeps its content and place. \<^verbatim>\<open>saveBill2\<close> does the same
  once its duplicate check has answered false.
\<close>

theorem save_appends_new_record:
  "(getSavedBills ls = Inr (JArr bills) \<longrightarrow>
      (\<exists>newBill.
         fst (saveBill c billData ls) = Inr newBill \<and>
         getSavedBills (snd (saveBill c billData ls)) = Inr (JArr (bills @ [JObj newBill])) \<and>
         setItemCalls (snd (saveBill c billData ls)) = Suc (setItemCalls ls) \<and>
         newBill ''id'' = Some (JStr (toString (now c))) \<and>
         newBill ''invoiceNumber'' = Some (JStr (''INV-'' @ toString (getFullYear c) @ ''-'' @
              padStart 3 (CHR ''0'') (toString (int (length bills) + 1)))) \<and>
         newBill ''status'' = Some (JStr ''Pending'') \<and>
         newBill ''createdAt'' = Some (JStr (toISOString c)) \<and>
         (\<forall>k. k \<notin> {''id'', ''invoiceNumber'', ''status'', ''createdAt''} \<longrightarrow>
              newBill k = billData k))) \<and>
   (getSavedBills2 ls = Inr (JArr bills) \<and> some_js (isDuplicateOf toLowerCase billData) bills = Inr False \<longrightarrow>
      (\<exists>newBill.
         fst (saveBill2 toLowerCase c billData ls) = Inr newBill \<and>
         getSavedBills2 (snd (saveBill2 toLowerCase c billData ls)) = Inr (JArr (bills @ [JObj newBill])) \<and>
         setItemCalls (snd (saveBill2 toLowerCase c billData ls)) = Suc (setItemCalls ls) \<and>
         newBill ''id'' = Some (JStr (toString (now c))) \<and>
         newBill ''invoiceNumber'' = Some (JStr (''INV-'' @ toString (getFullYear c) @ ''-'' @
              padStart 3 (CHR ''0'') (toString (int (length bills) + 1)))) \<and>
         newBill ''status'' = Some (JStr ''Pending'') \<and>
         newBill ''createdAt'' = Some (JStr (toISOString c)) \<and>
         (\<forall>k. k \<notin> {''id'', ''invoiceNumber'', ''status'', ''createdAt''} \<longrightarrow>
              newBill k = billData k)))"
proof -
  define newBill where "newBill = billData
          (''id'' \<mapsto> JStr (toString (now c)),
           ''invoiceNumber'' \<mapsto> JStr (''INV-'' @ toString (getFullYear c) @ ''-'' @
              padStart 3 (CHR ''0'') (toString (int (length bills) + 1))),
           ''status'' \<mapsto> JStr ''Pending'',
           ''createdAt'' \<mapsto> JStr (toISOString c))"
  note f = newBill_fields [OF newBill_def]
  show ?thesis
  proof (intro conjI impI; (elim conjE)?)
    assume g: "getSavedBills ls = Inr (JArr bills)"
    have "fst (saveBill c billData ls) = Inr newBill"
      and "getSavedBills (snd (saveBill c billData ls)) = Inr (JArr (bills @ [JObj newBill]))"
      and "setItemCalls (snd (saveBill c billData ls)) = Suc (setItemCalls ls)"
      using saveBill_array [OF g newBill_def] by simp_all
    with f show "\<exists>newBill.
         fst (saveBill c billData ls) = Inr newBill \<and>
         getSavedBills (snd (saveBill c billData ls)) = Inr (JArr (bills @ [JObj newBill])) \<and>
         setItemCalls (snd (saveBill c billData ls)) = Suc (setItemCalls ls) \<and>
         newBill ''id'' = Some (JStr (toString (now c))) \<and>
         newBill ''invoiceNumber'' = Some (JStr (''INV-'' @ toString (getFullYear c) @ ''-'' @
              padStart 3 (CHR ''0'') (toString (int (length bills) + 1)))) \<and>
         newBill ''status'' = Some (JStr ''Pending'') \<and>
         newBill ''createdAt'' = Some (JStr (toISOString c)) \<and>
         (\<forall>k. k \<notin> {''id'', ''invoiceNumber'', ''status'', ''createdAt''} \<longrightarrow>
              newBill k = billData k)"
      by blast
  next
    assume g: "getSavedBills2 ls = Inr (JArr bills)"
      and d: "some_js (isDuplicateOf toLowerCase billData) bills = Inr False"
    have "fst (saveBill2 toLowerCase c billData ls) = Inr newBill"
      and "getSavedBills2 (snd (saveBill2 toLowerCase c billData ls)) = Inr (JArr (bills @ [JObj newBill]))"
      and "setItemCalls (snd (saveBill2 toLowerCase c billData ls)) = Suc (setItemCalls ls)"
      using saveBill2_array [OF g d newBill_def] by simp_all
    with f show "\<exists>newBill.
         fst (saveBill2 toLowerCase c billData ls) = Inr newBill \<and>
         getSavedBills2 (snd (saveBill2 toLowerCase c billData ls)) = Inr (JArr (bills @ [JObj newBill])) \<and>
         setItemCalls (snd (saveBill2 toLowerCase c billData ls)) = Suc (setItemCalls ls) \<and>
         newBill ''id'' = Some (JStr (toString (now c))) \<and>
         newBill ''invoiceNumber'' = Some (JStr (''INV-'' @ toString (getFullYear c) @ ''-'' @
              padStart 3 (CHR ''0'') (toString (int (length bills) + 1)))) \<and>
         newBill ''status'' = Some (JStr ''Pending'') \<and>
         newBill ''createdAt'' = Some (JStr (toISOString c)) \<and>
         (\<forall>k. k \<notin> {''id'', ''invoiceNumber'', ''status'', ''createdAt''} \<longrightarrow>
              newBill k = billData k)"
      by blast
  qed
qed

lemma no_duplicate_of_zed:
  "some_js (isDuplicateOf lowerLatin zed) [JObj acme, JObj bolt] = Inr False"
  by (simp add: isDuplicateOf_def andAlso_def sameLower_def sameInvoice_def toLowerCase_call_def
      asciiLower_def asciiCasePairs_def zed_def acme_def bolt_def)

lemma toString_examples:
  "toString 2025 = ''2025''" "toString 1750000000000 = ''1750000000000''"
  "toString 1 = ''1''" "toString 2 = ''2''" "toString 3 = ''3''"
  by (simp_all add: toString_def digits.simps digit_char_def)

lemma padStart_examples:
  "padStart 3 c [x] = [c, c, x]" "padStart 3 c [x, y] = [c, x, y]"
  "padStart 3 c [x, y, z] = [x, y, z]" "padStart 3 c (x # y # z # w # s) = x # y # z # w # s"
  by (simp_all add: padStart_def eval_nat_numeral)

theorem save_appends_new_record_witness:
  "getSavedBills twoBills = Inr (JArr [JObj acme, JObj bolt]) \<and>
   getSavedBills2 twoBills = Inr (JArr [JObj acme, JObj bolt]) \<and>
   some_js (isDuplicateOf lowerLatin zed) [JObj acme, JObj bolt] = Inr False \<and>
   (\<exists>newBill.
      fst (saveBill noon zed twoBills) = Inr newBill \<and>
      getSavedBills (snd (saveBill noon zed twoBills)) =
        Inr (JArr [JObj acme, JObj bolt, JObj newBill]) \<and>
      newBill ''id'' = Some (JStr ''1750000000000'') \<and>
      newBill ''invoiceNumber'' = Some (JStr ''INV-2025-003'') \<and>
      newBill ''status'' = Some (JStr ''Pending'') \<and>
      newBill ''createdAt'' = Some (JStr ''2025-06-15T15:06:40.000Z'') \<and>
      newBill ''customer'' = Some (JStr ''Zed Co'')) \<and>
   (\<exists>newBill.
      fst (saveBill2 lowerLatin noon zed twoBills) = Inr newBill \<and>
      getSavedBills2 (snd (saveBill2 lowerLatin noon zed twoBills)) =
        Inr (JArr [JObj acme, JObj bolt, JObj newBill]) \<and>
      newBill ''id'' = Some (JStr ''1750000000000'') \<and>
      newBill ''invoiceNumber'' = Some (JStr ''INV-2025-003'') \<and>
      newBill ''status'' = Some (JStr ''Pending'') \<and>
      newBill ''createdAt'' = Some (JStr ''2025-06-15T15:06:40.000Z'') \<and>
      newBill ''customer'' = Some (JStr ''Zed Co''))"
proof -
  have g: "getSavedBills twoBills = Inr (JArr [JObj acme, JObj bolt])"
    "getSavedBills2 twoBills = Inr (JArr [JObj acme, JObj bolt])"
    by simp_all
  note d = no_duplicate_of_zed
  have k: "''customer'' \<notin> {''id'', ''invoiceNumber'', ''status'', ''createdAt''}" by simp
  have v: "zed ''customer'' = Some (JStr ''Zed Co'')"
    "toString (now noon) = ''1750000000000''"
    "''INV-'' @ toString (getFullYear noon) @ ''-'' @
       padStart 3 (CHR ''0'') (toString (int (length [JObj acme, JObj bolt]) + 1)) = ''INV-2025-003''"
    "toISOString noon = ''2025-06-15T15:06:40.000Z''"
    by (simp_all add: zed_def noon_def toString_examples padStart_examples)
  note t = save_appends_new_record
    [where ls = twoBills and bills = "[JObj acme, JObj bolt]" and c = noon and billData = zed]
  from t g(1) obtain a where a: "fst (saveBill noon zed twoBills) = Inr a"
    "getSavedBills (snd (saveBill noon zed twoBills)) = Inr (JArr ([JObj acme, JObj bolt] @ [JObj a]))"
    "a ''id'' = Some (JStr (toString (now noon)))"
    "a ''invoiceNumber'' = Some (JStr (''INV-'' @ toString (getFullYear noon) @ ''-'' @
       padStart 3 (CHR ''0'') (toString (int (length [JObj acme, JObj bolt]) + 1))))"
    "a ''status'' = Some (JStr ''Pending'')"
    "a ''createdAt'' = Some (JStr (toISOString noon))"
    "\<forall>k. k \<notin> {''id'', ''invoiceNumber'', ''status'', ''createdAt''} \<longrightarrow> a k = zed k"
    by blast
  from t g(2) d obtain b where b: "fst (saveBill2 lowerLatin noon zed twoBills) = Inr b"
    "getSavedBills2 (snd (saveBill2 lowerLatin noon zed twoBills)) = Inr (JArr ([JObj acme, JObj bolt] @ [JObj b]))"
    "b ''id'' = Some (JStr (toString (now noon)))"
    "b ''invoiceNumber'' = Some (JStr (''INV-'' @ toString (getFullYear noon) @ ''-'' @
       padStart 3 (CHR ''0'') (toString (int (length [JObj acme, JObj bolt]) + 1))))"
    "b ''status'' = Some (JStr ''Pending'')"
    "b ''createdAt'' = Some (JStr (toISOString noon))"
    "\<forall>k. k \<notin> {''id'', ''invoiceNumber'', ''status'', ''createdAt''} \<longrightarrow> b k = zed k"
    by blast
  have ac: "a ''customer'' = Some (JStr ''Zed Co'')" using a(7) k v(1) by metis
  have bc: "b ''customer'' = Some (JStr ''Zed Co'')" using b(7) k v(1) by metis
  have "\<exists>newBill.
      fst (saveBill noon zed twoBills) = Inr newBill \<and>
      getSavedBills (snd (saveBill noon zed twoBills)) =
        Inr (JArr [JObj acme, JObj bolt, JObj newBill]) \<and>
      newBill ''id'' = Some (JStr ''1750000000000'') \<and>
      newBill ''invoiceNumber'' = Some (JStr ''INV-2025-003'') \<and>
      newBill ''status'' = Some (JStr ''Pending'') \<and>
      newBill ''createdAt'' = Some (JStr ''2025-06-15T15:06:40.000Z'') \<and>
      newBill ''customer'' = Some (JStr ''Zed Co'')"
    using a(1-6) ac unfolding v(2-4) by (intro exI [of _ a]) simp
  moreover have "\<exists>newBill.
      fst (saveBill2 lowerLatin noon zed twoBills) = Inr newBill \<and>
      getSavedBills2 (snd (saveBill2 lowerLatin noon zed twoBills)) =
        Inr (JArr [JObj acme, JObj bolt, JObj newBill]) \<and>
      newBill ''id'' = Some (JStr ''1750000000000'') \<and>
      newBill ''invoiceNumber'' = Some (JStr ''INV-2025-003'') \<and>
      newBill ''status'' = Some (JStr ''Pending'') \<and>
      newBill ''createdAt'' = Some (JStr ''2025-06-15T15:06:40.000Z'') \<and>
      newBill ''customer'' = Some (JStr ''Zed Co'')"
    using b(1-6) bc unfolding v(2-4) by (intro exI [of _ b]) simp
  ultimately show ?thesis
    using g d by simp
qed

subsection \<open>Reading the slot\<close>

lemma getSavedBills_cases:
  "getSavedBills ls =
     (case getItem ls BILLS_STORAGE_KEY of
        None \<Rightarrow> Inr (JArr [])
      | Some EmptyText \<Rightarrow> Inr (JArr [])
      | Some InvalidText \<Rightarrow> Inl SyntaxError
      | Some (JsonText v) \<Rightarrow> Inr v)"
  by (simp add: getSavedBills_def split: option.split stored_text.split)

lemma getSavedBills2_cases:
  "getSavedBills2 ls =
     (case getItem ls BILLS_STORAGE_KEY2 of
        None \<Rightarrow> Inr (JArr [])
      | Some EmptyText \<Rightarrow> Inr (JArr [])
      | Some InvalidText \<Rightarrow> Inl SyntaxError
      | Some (JsonText v) \<Rightarrow> Inr v)"
  by (simp add: getSavedBills2_def split: option.split stored_text.split)

text \<open>
  Claim C5 says that \<^verbatim>\<open>getSavedBills()\<close> never fails and always returns a sequence,
  also on a malformed slot. The code guards the read with \<^verbatim>\<open>stored ? ... : []\<close> only:
  a slot with a non-empty text that is not JSON makes \<^verbatim>\<open>JSON.parse\<close> throw, and a slot
  with the JSON text of an object gives that object back, not a sequence.
\<close>

theorem getSavedBills_fails_on_text_that_is_not_json:
  "getSavedBills brokenStorage = Inl SyntaxError \<and>
   getSavedBills2 brokenStorage = Inl SyntaxError \<and>
   getSavedBills objectStorage = Inr (JObj acme) \<and>
   getSavedBills2 objectStorage = Inr (JObj acme)"
  by (simp add: getSavedBills_def getSavedBills2_def getItem_def brokenStorage_def
      objectStorage_def BILLS_STORAGE_KEY_def BILLS_STORAGE_KEY2_def)

text \<open>
  Claim C5, amended. \<^verbatim>\<open>getSavedBills()\<close> (and \<^verbatim>\<open>getSavedBills2\<close>) returns the empty
  sequence when the slot is absent or holds the empty string, and the parsed value when
  the slot holds JSON text, so a sequence when that text is an array. Its only failure
  is the SyntaxError of \<^verbatim>\<open>JSON.parse\<close>, on a non-empty text that is not JSON.
\<close>

theorem getSavedBills_by_slot_content:
  "(getItem ls BILLS_STORAGE_KEY = None \<or> getItem ls BILLS_STORAGE_KEY = Some EmptyText \<longrightarrow>
      getSavedBills ls = Inr (JArr [])) \<and>
   (\<forall>v. getItem ls BILLS_STORAGE_KEY = Some (JsonText v) \<longrightarrow> getSavedBills ls = Inr v) \<and>
   (\<forall>e. getSavedBills ls = Inl e \<longleftrightarrow>
      e = SyntaxError \<and> getItem ls BILLS_STORAGE_KEY = Some InvalidText) \<and>
   (getItem ls BILLS_STORAGE_KEY2 = None \<or> getItem ls BILLS_STORAGE_KEY2 = Some EmptyText \<longrightarrow>
      getSavedBills2 ls = Inr (JArr [])) \<and>
   (\<forall>v. getItem ls BILLS_STORAGE_KEY2 = Some (JsonText v) \<longrightarrow> getSavedBills2 ls = Inr v) \<and>
   (\<forall>e. getSavedBills2 ls = Inl e \<longleftrightarrow>
      e = SyntaxError \<and> getItem ls BILLS_STORAGE_KEY2 = Some InvalidText)"
  unfolding getSavedBills_cases getSavedBills2_cases
  by (auto split: option.splits stored_text.splits)

theorem getSavedBills_by_slot_content_witness:
  "getItem emptyStorage BILLS_STORAGE_KEY = None \<and>
   getItem emptyStorage BILLS_STORAGE_KEY2 = None \<and>
   getSavedBills emptyStorage = Inr (JArr []) \<and>
   getSavedBills2 emptyStorage = Inr (JArr []) \<and>
   getItem twoBills BILLS_STORAGE_KEY = Some (JsonText (JArr [JObj acme, JObj bolt])) \<and>
   getItem twoBills BILLS_STORAGE_KEY2 = Some (JsonText (JArr [JObj acme, JObj bolt])) \<and>
   getSavedBills twoBills = Inr (JArr [JObj acme, JObj bolt]) \<and>
   getSavedBills2 twoBills = Inr (JArr [JObj acme, JObj bolt]) \<and>
   getItem brokenStorage BILLS_STORAGE_KEY = Some InvalidText \<and>
   getItem brokenStorage BILLS_STORAGE_KEY2 = Some InvalidText \<and>
   getSavedBills brokenStorage = Inl SyntaxError \<and>
   getSavedBills2 brokenStorage = Inl SyntaxError"
proof -
  have e: "getItem emptyStorage BILLS_STORAGE_KEY = None"
    "getItem emptyStorage BILLS_STORAGE_KEY2 = None"
    by (simp_all add: getItem_def emptyStorage_def)
  have t: "getItem twoBills BILLS_STORAGE_KEY = Some (JsonText (JArr [JObj acme, JObj bolt]))"
    "getItem twoBills BILLS_STORAGE_KEY2 = Some (JsonText (JArr [JObj acme, JObj bolt]))"
    by (simp_all add: getItem_def twoBills_def BILLS_STORAGE_KEY_def BILLS_STORAGE_KEY2_def)
  have b: "getItem brokenStorage BILLS_STORAGE_KEY = Some InvalidText"
    "getItem brokenStorage BILLS_STORAGE_KEY2 = Some InvalidText"
    by (simp_all add: getItem_def brokenStorage_def BILLS_STORAGE_KEY_def BILLS_STORAGE_KEY2_def)
  show ?thesis
    using getSavedBills_by_slot_content [of emptyStorage]
      getSavedBills_by_slot_content [of twoBills]
      getSavedBills_by_slot_content [of brokenStorage] e t b
    by simp
qed

subsection \<open>Reading back what was saved\<close>

lemma find_js_last:
  "\<forall>x\<in>set xs. p x = Inr False \<Longrightarrow> p y = Inr True \<Longrightarrow> find_js p (xs @ [y]) = Inr (Some y)"
  by (induction xs) simp_all

text \<open>
  When no stored element has the id that the save generates, \<^verbatim>\<open>getBillById\<close> with that
  id finds the record that \<^verbatim>\<open>saveBill\<close> returned.
\<close>

lemma saveBill_then_getBillById_fresh:
  assumes "getSavedBills ls = Inr (JArr bills)"
    and "\<forall>b\<in>set bills. hasId (toString (now c)) b = Inr False"
    and "saveBill c billData ls = (Inr newBill, ls')"
  shows "getBillById (toString (now c)) ls' = Inr (JObj newBill)"
proof -
  define nb where "nb = billData
          (''id'' \<mapsto> JStr (toString (now c)),
           ''invoiceNumber'' \<mapsto> JStr (''INV-'' @ toString (getFullYear c) @ ''-'' @
              padStart 3 (CHR ''0'') (toString (int (length bills) + 1))),
           ''status'' \<mapsto> JStr ''Pending'',
           ''createdAt'' \<mapsto> JStr (toISOString c))"
  have s: "saveBill c billData ls =
      (Inr nb, setItem BILLS_STORAGE_KEY (JSON_stringify (JArr (bills @ [JObj nb]))) ls)"
    using assms(1) nb_def by (rule saveBill_array)
  with assms(3) have eq: "newBill = nb"
    "ls' = setItem BILLS_STORAGE_KEY (JSON_stringify (JArr (bills @ [JObj nb]))) ls"
    by auto
  have "hasId (toString (now c)) (JObj nb) = Inr True"
    by (simp add: nb_def)
  with assms(2) have "find_js (hasId (toString (now c))) (bills @ [JObj nb]) = Inr (Some (JObj nb))"
    by (rule find_js_last)
  then show ?thesis
    by (simp add: getBillById_def eq)
qed

text \<open>
  Claim C8 says that \<^verbatim>\<open>getBillById\<close> with the id of the record that \<^verbatim>\<open>saveBill\<close>
  returned finds that record. The id is \<^verbatim>\<open>Date.now().toString()\<close>, so two saves in the
  same millisecond give two records the same id, and \<^verbatim>\<open>find\<close> answers the first: after
  saving \<open>zed\<close> and then \<open>yak\<close> into an empty storage at one clock reading,
  \<^verbatim>\<open>getBillById\<close> with the id returned for \<open>yak\<close> answers the record of \<open>zed\<close>.
\<close>

theorem getBillById_after_two_saves_in_one_millisecond:
  "fst (saveBill noon zed emptyStorage) =
     Inr (zed(''id'' \<mapsto> JStr ''1750000000000'', ''invoiceNumber'' \<mapsto> JStr ''INV-2025-001'',
              ''status'' \<mapsto> JStr ''Pending'', ''createdAt'' \<mapsto> JStr ''2025-06-15T15:06:40.000Z'')) \<and>
   fst (saveBill noon yak (snd (saveBill noon zed emptyStorage))) =
     Inr (yak(''id'' \<mapsto> JStr ''1750000000000'', ''invoiceNumber'' \<mapsto> JStr ''INV-2025-002'',
              ''status'' \<mapsto> JStr ''Pending'', ''createdAt'' \<mapsto> JStr ''2025-06-15T15:06:40.000Z'')) \<and>
   getBillById ''1750000000000'' (snd (saveBill noon yak (snd (saveBill noon zed emptyStorage)))) =
     Inr (JObj (zed(''id'' \<mapsto> JStr ''1750000000000'', ''invoiceNumber'' \<mapsto> JStr ''INV-2025-001'',
              ''status'' \<mapsto> JStr ''Pending'', ''createdAt'' \<mapsto> JStr ''2025-06-15T15:06:40.000Z''))) \<and>
   (zed(''id'' \<mapsto> JStr ''1750000000000'', ''invoiceNumber'' \<mapsto> JStr ''INV-2025-001'',
        ''status'' \<mapsto> JStr ''Pending'', ''createdAt'' \<mapsto> JStr ''2025-06-15T15:06:40.000Z'')) ''customer''
     = Some (JStr ''Zed Co'') \<and>
   (yak(''id'' \<mapsto> JStr ''1750000000000'', ''invoiceNumber'' \<mapsto> JStr ''INV-2025-002'',
        ''status'' \<mapsto> JStr ''Pending'', ''createdAt'' \<mapsto> JStr ''2025-06-15T15:06:40.000Z'')) ''customer''
     = Some (JStr ''Yak Inc'') \<and>
   getBillById ''1750000000000'' (snd (saveBill noon yak (snd (saveBill noon zed emptyStorage)))) \<noteq>
     Inr (JObj (yak(''id'' \<mapsto> JStr ''1750000000000'', ''invoiceNumber'' \<mapsto> JStr ''INV-2025-002'',
              ''status'' \<mapsto> JStr ''Pending'', ''createdAt'' \<mapsto> JStr ''2025-06-15T15:06:40.000Z'')))"
proof -
  let ?z = "zed(''id'' \<mapsto> JStr ''1750000000000'', ''invoiceNumber'' \<mapsto> JStr ''INV-2025-001'',
              ''status'' \<mapsto> JStr ''Pending'', ''createdAt'' \<mapsto> JStr ''2025-06-15T15:06:40.000Z'')"
  let ?y = "yak(''id'' \<mapsto> JStr ''1750000000000'', ''invoiceNumber'' \<mapsto> JStr ''INV-2025-002'',
              ''status'' \<mapsto> JStr ''Pending'', ''createdAt'' \<mapsto> JStr ''2025-06-15T15:06:40.000Z'')"
  let ?s1 = "setItem BILLS_STORAGE_KEY (JSON_stringify (JArr ([] @ [JObj ?z]))) emptyStorage"
  let ?s2 = "setItem BILLS_STORAGE_KEY (JSON_stringify (JArr ([JObj ?z] @ [JObj ?y]))) ?s1"
  have g0: "getSavedBills emptyStorage = Inr (JArr [])"
    by (simp add: getSavedBills_def getItem_def emptyStorage_def)
  have 1: "saveBill noon zed emptyStorage = (Inr ?z, ?s1)"
    by (rule saveBill_array [OF g0])
      (simp add: noon_def toString_examples padStart_examples)
  have g1: "getSavedBills ?s1 = Inr (JArr [JObj ?z])"
    by simp
  have 2: "saveBill noon yak ?s1 = (Inr ?y, ?s2)"
    by (rule saveBill_array [OF g1])
      (simp add: noon_def toString_examples padStart_examples)
  have 3: "getBillById ''1750000000000'' ?s2 = Inr (JObj ?z)"
    by (simp add: getBillById_def)
  have 4: "?z ''customer'' = Some (JStr ''Zed Co'')" "?y ''customer'' = Some (JStr ''Yak Inc'')"
    by (simp_all add: zed_def yak_def)
  have 5: "?z \<noteq> ?y"
  proof
    assume "?z = ?y"
    then have "?z ''customer'' = ?y ''customer''" by (rule arg_cong)
    then show False unfolding 4 by simp
  qed
  show ?thesis
    unfolding 1 2 fst_conv snd_conv 3 using 4 5 by simp
qed

subsection \<open>Invoice numbers\<close>

lemma digit_cases: "d < 10 \<Longrightarrow> d \<in> {0, 1, 2, 3, 4, 5, 6, 7, 8, 9 :: nat}"
  by auto

lemma digit_char_isDigit: "d < 10 \<Longrightarrow> digit_char d \<in> set ''0123456789''"
  unfolding digit_char_def by (rule nth_mem) simp

lemma digit_value_digit_char: "d < 10 \<Longrightarrow> digit_value (digit_char d) = d"
  using digit_cases [of d] by (auto simp: digit_value_def digit_char_def)

lemma isDigits_append [simp]: "isDigits (xs @ ys) = (isDigits xs \<and> isDigits ys)"
  by (simp add: isDigits_def)

lemma isDigits_single: "d < 10 \<Longrightarrow> isDigits [digit_char d]"
  unfolding isDigits_def list_all_iff using digit_char_isDigit [of d] by auto

lemma isDigits_digits: "isDigits (digits n)"
proof (induction n rule: digits.induct)
  case (1 n)
  show ?case
  proof (cases "n < 10")
    case True
    then show ?thesis
      by (subst digits.simps) (simp add: isDigits_single)
  next
    case False
    have "isDigits [digit_char (n mod 10)]"
      by (simp add: isDigits_single)
    with False "1.IH" show ?thesis
      by (subst digits.simps) simp
  qed
qed

lemma decimal_snoc: "decimal (xs @ [ch]) = 10 * decimal xs + digit_value ch"
  by (simp add: decimal_def)

lemma decimal_digits: "decimal (digits n) = n"
proof (induction n rule: digits.induct)
  case (1 n)
  show ?case
  proof (cases "n < 10")
    case True
    then show ?thesis
      by (subst digits.simps) (simp add: decimal_def digit_value_digit_char)
  next
    case False
    with "1.IH" show ?thesis
      by (subst digits.simps) (simp add: decimal_snoc digit_value_digit_char)
  qed
qed

lemma decimal_zeros: "decimal (replicate k (CHR ''0'') @ s) = decimal s"
proof (induction k)
  case 0
  then show ?case by simp
next
  case (Suc k)
  have "decimal (CHR ''0'' # t) = decimal t" for t
    by (simp add: decimal_def digit_value_def)
  with Suc show ?case by simp
qed

lemma length_digits_1: "n < 10 \<Longrightarrow> length (digits n) = 1"
  by (subst digits.simps) simp

lemma length_digits_2: "10 \<le> n \<Longrightarrow> n < 100 \<Longrightarrow> length (digits n) = 2"
  by (subst digits.simps) (simp add: length_digits_1)

lemma length_digits_3: "100 \<le> n \<Longrightarrow> n < 1000 \<Longrightarrow> length (digits n) = 3"
  by (subst digits.simps) (simp add: length_digits_2)

lemma length_digits_4: "1000 \<le> n \<Longrightarrow> n < 10000 \<Longrightarrow> length (digits n) = 4"
  by (subst digits.simps) (simp add: length_digits_3)

lemma length_digits_pos: "0 < length (digits n)"
  by (subst digits.simps) simp

lemma length_digits_step: "10 \<le> n \<Longrightarrow> length (digits n) = Suc (length (digits (n div 10)))"
  by (subst digits.simps) simp

lemma length_digits_ge_4:
  assumes "1000 \<le> n"
  shows "4 \<le> length (digits n)"
proof -
  have "10 \<le> n" and "10 \<le> n div 10" and "10 \<le> n div 10 div 10"
    using assms by arith+
  then have "length (digits n) = Suc (Suc (Suc (length (digits (n div 10 div 10 div 10)))))"
    by (simp add: length_digits_step)
  with length_digits_pos [of "n div 10 div 10 div 10"] show ?thesis
    by arith
qed

lemma length_digits_le_3: "n < 1000 \<Longrightarrow> length (digits n) \<le> 3"
  using length_digits_1 [of n] length_digits_2 [of n] length_digits_3 [of n]
  by (cases "n < 10"; cases "n < 100") auto

text \<open>The sequence part: the digits of the count plus one, with zeros in front up to three.\<close>

lemma toString_nat: "toString (int n + 1) = digits (Suc n)"
  by (simp add: toString_def nat_add_distrib)

lemma sequence_part:
  fixes n :: nat
  defines "s \<equiv> padStart 3 (CHR ''0'') (toString (int n + 1))"
  shows "isDigits s" and "decimal s = n + 1" and "3 \<le> length s"
    and "n < 999 \<Longrightarrow> length s = 3" and "999 \<le> n \<Longrightarrow> s = digits (n + 1) \<and> 4 \<le> length s"
    and "n = 0 \<Longrightarrow> s = ''001''"
proof -
  have s: "s = replicate (3 - length (digits (Suc n))) (CHR ''0'') @ digits (Suc n)"
    by (simp add: s_def padStart_def toString_nat)
  show "isDigits s"
    by (simp add: s isDigits_digits) (simp add: isDigits_def list_all_iff)
  show "decimal s = n + 1"
    by (simp add: s decimal_zeros decimal_digits)
  show "3 \<le> length s"
    by (simp add: s)
  show "length s = 3" if "n < 999"
    using length_digits_le_3 [of "Suc n"] that by (simp add: s)
  show "s = digits (n + 1) \<and> 4 \<le> length s" if "999 \<le> n"
    using length_digits_ge_4 [of "Suc n"] that by (simp add: s)
  show "s = ''001''" if "n = 0"
    using that by (simp add: s digits.simps digit_char_def eval_nat_numeral)
qed

lemma year_part:
  assumes "1000 \<le> y" and "y \<le> 9999"
  shows "isDigits (toString y)" and "length (toString y) = 4"
  using assms by (simp_all add: toString_def isDigits_digits length_digits_4)

lemma invoicePattern_built:
  assumes "isDigits y" and "length y = 4" and "isDigits s" and "length s = 3"
  shows "invoicePattern (''INV-'' @ y @ ''-'' @ s)"
  using assms by (simp add: invoicePattern_def)

lemma not_invoicePattern_longer:
  assumes "length y = 4" and "4 \<le> length s"
  shows "\<not> invoicePattern (''INV-'' @ y @ ''-'' @ s)"
  using assms by (simp add: invoicePattern_def)

lemma some_js_none:
  "\<forall>x\<in>set xs. p x = Inr False \<Longrightarrow> some_js p xs = Inr False"
  by (induction xs) simp_all

lemma getSavedBills_fullStorage:
  "getSavedBills fullStorage = Inr (JArr manyBills)"
  "getSavedBills2 fullStorage = Inr (JArr manyBills)"
  by (simp_all add: getSavedBills_def getSavedBills2_def getItem_def fullStorage_def
      BILLS_STORAGE_KEY_def BILLS_STORAGE_KEY2_def)

lemma length_manyBills: "length manyBills = 999"
  by (simp add: manyBills_def)

lemma no_duplicate_of_zed_in_manyBills:
  "some_js (isDuplicateOf lowerLatin zed) manyBills = Inr False"
proof (rule some_js_none)
  show "\<forall>x\<in>set manyBills. isDuplicateOf lowerLatin zed x = Inr False"
    by (simp add: manyBills_def isDuplicateOf_def andAlso_def sameLower_def
        toLowerCase_call_def asciiLower_def asciiCasePairs_def zed_def acme_def)
qed

lemma toString_1000: "toString 1000 = ''1000''"
  by (simp add: toString_def digits.simps digit_char_def)

text \<open>
  Claim C4 says that every invoice number has a sequence part of three digits. The
  modules pad the number to three digits and never cut it: with 999 records stored,
  the next invoice number is \<^verbatim>\<open>INV-2025-1000\<close>, which is not of the pattern.
\<close>

theorem invoice_number_of_the_thousandth_bill:
  "fst (saveBill noon zed fullStorage) =
     Inr (zed(''id'' \<mapsto> JStr ''1750000000000'', ''invoiceNumber'' \<mapsto> JStr ''INV-2025-1000'',
              ''status'' \<mapsto> JStr ''Pending'', ''createdAt'' \<mapsto> JStr ''2025-06-15T15:06:40.000Z'')) \<and>
   fst (saveBill2 lowerLatin noon zed fullStorage) =
     Inr (zed(''id'' \<mapsto> JStr ''1750000000000'', ''invoiceNumber'' \<mapsto> JStr ''INV-2025-1000'',
              ''status'' \<mapsto> JStr ''Pending'', ''createdAt'' \<mapsto> JStr ''2025-06-15T15:06:40.000Z'')) \<and>
   \<not> invoicePattern ''INV-2025-1000''"
proof -
  let ?n = "zed(''id'' \<mapsto> JStr ''1750000000000'', ''invoiceNumber'' \<mapsto> JStr ''INV-2025-1000'',
              ''status'' \<mapsto> JStr ''Pending'', ''createdAt'' \<mapsto> JStr ''2025-06-15T15:06:40.000Z'')"
  have n: "?n = zed
          (''id'' \<mapsto> JStr (toString (now noon)),
           ''invoiceNumber'' \<mapsto> JStr (''INV-'' @ toString (getFullYear noon) @ ''-'' @
              padStart 3 (CHR ''0'') (toString (int (length manyBills) + 1))),
           ''status'' \<mapsto> JStr ''Pending'',
           ''createdAt'' \<mapsto> JStr (toISOString noon))"
    by (simp add: noon_def toString_examples length_manyBills toString_1000 padStart_examples)
  have "fst (saveBill noon zed fullStorage) = Inr ?n"
    using saveBill_array [OF getSavedBills_fullStorage(1) n] by simp
  moreover have "fst (saveBill2 lowerLatin noon zed fullStorage) = Inr ?n"
    using saveBill2_array [OF getSavedBills_fullStorage(2) no_duplicate_of_zed_in_manyBills n]
    by simp
  moreover have "\<not> invoicePattern ''INV-2025-1000''"
    by (simp add: invoicePattern_def)
  ultimately show ?thesis by simp
qed

text \<open>
  Claim C4, amended. The invoice number that \<^verbatim>\<open>saveBill\<close> (and \<^verbatim>\<open>saveBill2\<close>, once its
  duplicate check has answered false) gives the new record is \<^verbatim>\<open>INV-\<close>, the clock's
  year \<open>y\<close>, \<^verbatim>\<open>-\<close> and a sequence part \<open>s\<close>. The sequence part is made of digits, stands
  for the number of records stored at the call plus one, and has at least three
  characters: exactly three while fewer than 999 records are stored, and \<^verbatim>\<open>001\<close> on an
  empty store. For a year from 1000 to 9999 the year part is four digits, and then,
  with fewer than 999 records stored, the invoice number is of the pattern
  \<^verbatim>\<open>INV-<4 digits>-<3 digits>\<close>.
\<close>

theorem invoice_number_format:
  assumes "y = toString (getFullYear c)"
    and "s = padStart 3 (CHR ''0'') (toString (int (length bills) + 1))"
  shows "(getSavedBills ls = Inr (JArr bills) \<longrightarrow>
            (\<exists>newBill. fst (saveBill c billData ls) = Inr newBill \<and>
               newBill ''invoiceNumber'' = Some (JStr (''INV-'' @ y @ ''-'' @ s)))) \<and>
         (getSavedBills2 ls = Inr (JArr bills) \<and>
          some_js (isDuplicateOf toLowerCase billData) bills = Inr False \<longrightarrow>
            (\<exists>newBill. fst (saveBill2 toLowerCase c billData ls) = Inr newBill \<and>
               newBill ''invoiceNumber'' = Some (JStr (''INV-'' @ y @ ''-'' @ s)))) \<and>
         isDigits s \<and> decimal s = length bills + 1 \<and> 3 \<le> length s \<and>
         (length bills < 999 \<longrightarrow> length s = 3) \<and>
         (bills = [] \<longrightarrow> s = ''001'') \<and>
         (1000 \<le> getFullYear c \<and> getFullYear c \<le> 9999 \<longrightarrow> isDigits y \<and> length y = 4) \<and>
         (length bills < 999 \<and> 1000 \<le> getFullYear c \<and> getFullYear c \<le> 9999 \<longrightarrow>
            invoicePattern (''INV-'' @ y @ ''-'' @ s))"
proof -
  define newBill where "newBill = billData
          (''id'' \<mapsto> JStr (toString (now c)),
           ''invoiceNumber'' \<mapsto> JStr (''INV-'' @ toString (getFullYear c) @ ''-'' @
              padStart 3 (CHR ''0'') (toString (int (length bills) + 1))),
           ''status'' \<mapsto> JStr ''Pending'',
           ''createdAt'' \<mapsto> JStr (toISOString c))"
  have inv: "newBill ''invoiceNumber'' = Some (JStr (''INV-'' @ y @ ''-'' @ s))"
    by (simp add: newBill_def assms)
  have a: "\<exists>newBill. fst (saveBill c billData ls) = Inr newBill \<and>
               newBill ''invoiceNumber'' = Some (JStr (''INV-'' @ y @ ''-'' @ s))"
    if "getSavedBills ls = Inr (JArr bills)"
    using saveBill_array [OF that newBill_def] inv by (intro exI [of _ newBill]) simp
  have b: "\<exists>newBill. fst (saveBill2 toLowerCase c billData ls) = Inr newBill \<and>
               newBill ''invoiceNumber'' = Some (JStr (''INV-'' @ y @ ''-'' @ s))"
    if "getSavedBills2 ls = Inr (JArr bills)" "some_js (isDuplicateOf toLowerCase billData) bills = Inr False"
    using saveBill2_array [OF that newBill_def] inv by (intro exI [of _ newBill]) simp
  note sp = sequence_part [of "length bills", folded assms(2)]
  have s3: "length s = 3" if "length bills < 999"
    using sp(4) that by simp
  have s1: "s = ''001''" if "bills = []"
    using sp(6) that by simp
  have yp: "isDigits y \<and> length y = 4" if "1000 \<le> getFullYear c \<and> getFullYear c \<le> 9999"
    using year_part [of "getFullYear c"] that by (simp add: assms(1))
  have pat: "invoicePattern (''INV-'' @ y @ ''-'' @ s)"
    if "length bills < 999 \<and> 1000 \<le> getFullYear c \<and> getFullYear c \<le> 9999"
    using that yp s3 sp(1) by (intro invoicePattern_built) simp_all
  show ?thesis
    using a b sp(1,2,3) s3 s1 yp pat by blast
qed

theorem invoice_number_format_witness:
  "''2025'' = toString (getFullYear noon) \<and>
   ''003'' = padStart 3 (CHR ''0'') (toString (int (length [JObj acme, JObj bolt]) + 1)) \<and>
   getSavedBills twoBills = Inr (JArr [JObj acme, JObj bolt]) \<and>
   getSavedBills2 twoBills = Inr (JArr [JObj acme, JObj bolt]) \<and>
   some_js (isDuplicateOf lowerLatin zed) [JObj acme, JObj bolt] = Inr False \<and>
   (\<exists>newBill. fst (saveBill noon zed twoBills) = Inr newBill \<and>
      newBill ''invoiceNumber'' = Some (JStr ''INV-2025-003'')) \<and>
   (\<exists>newBill. fst (saveBill2 lowerLatin noon zed twoBills) = Inr newBill \<and>
      newBill ''invoiceNumber'' = Some (JStr ''INV-2025-003'')) \<and>
   isDigits ''003'' \<and> decimal ''003'' = 3 \<and> length ''003'' = 3 \<and>
   isDigits ''2025'' \<and> length ''2025'' = 4 \<and>
   invoicePattern ''INV-2025-003'' \<and>
   getSavedBills emptyStorage = Inr (JArr []) \<and>
   (\<exists>newBill. fst (saveBill noon zed emptyStorage) = Inr newBill \<and>
      newBill ''invoiceNumber'' = Some (JStr ''INV-2025-001''))"
proof -
  have y: "''2025'' = toString (getFullYear noon)"
    by (simp add: noon_def toString_examples)
  have s: "''003'' = padStart 3 (CHR ''0'') (toString (int (length [JObj acme, JObj bolt]) + 1))"
    by (simp add: toString_examples padStart_examples)
  have s0: "''001'' = padStart 3 (CHR ''0'') (toString (int (length ([] :: jsval list)) + 1))"
    by (simp add: toString_examples padStart_examples)
  have g: "getSavedBills twoBills = Inr (JArr [JObj acme, JObj bolt])"
    "getSavedBills2 twoBills = Inr (JArr [JObj acme, JObj bolt])"
    by simp_all
  have g0: "getSavedBills emptyStorage = Inr (JArr [])"
    by (simp add: getSavedBills_def getItem_def emptyStorage_def)
  note d = no_duplicate_of_zed
  have r: "(1000::int) \<le> getFullYear noon \<and> getFullYear noon \<le> 9999"
    by (simp add: noon_def)
  have l: "length [JObj acme, JObj bolt] < 999" by simp
  note t = invoice_number_format [OF y s, of twoBills zed]
  note t0 = invoice_number_format [OF y s0, of emptyStorage zed]
  have 1: "\<exists>newBill. fst (saveBill noon zed twoBills) = Inr newBill \<and>
      newBill ''invoiceNumber'' = Some (JStr ''INV-2025-003'')"
    using t g(1) by simp
  have 2: "\<exists>newBill. fst (saveBill2 lowerLatin noon zed twoBills) = Inr newBill \<and>
      newBill ''invoiceNumber'' = Some (JStr ''INV-2025-003'')"
    using t g(2) d by simp
  have 3: "isDigits ''003''" "decimal ''003'' = 3" "length ''003'' = 3"
    using t l by simp_all
  have 4: "isDigits ''2025''" "length ''2025'' = 4"
    using t r by blast+
  have 5: "invoicePattern ''INV-2025-003''"
    using t r l by simp
  have 6: "\<exists>newBill. fst (saveBill noon zed emptyStorage) = Inr newBill \<and>
      newBill ''invoiceNumber'' = Some (JStr ''INV-2025-001'')"
    using t0 g0 by simp
  show ?thesis
    using y s g d 1 2 3 4 5 g0 6 by blast
qed

subsection \<open>The duplicate check\<close>

lemma isString_E: "isString v \<Longrightarrow> \<exists>s. v = Some (JStr s)"
  by (cases v rule: isString.cases) simp_all

lemma sameLower_details:
  assumes "isString (r k)" and "isString (d k)"
  shows "sameLower toLowerCase (JObj r) d k =
           Inr (toLowerCase (detail r k) = toLowerCase (detail d k))"
proof -
  from assms obtain a b where "r k = Some (JStr a)" "d k = Some (JStr b)"
    using isString_E by blast
  then show ?thesis
    by (simp add: sameLower_def toLowerCase_call_def detail_def)
qed

lemma sameInvoice_details:
  assumes "isString (r ''invoice'')" and "isString (d ''invoice'')"
  shows "sameInvoice (JObj r) d = Inr (detail r ''invoice'' = detail d ''invoice'')"
proof -
  from assms obtain a b where "r ''invoice'' = Some (JStr a)" "d ''invoice'' = Some (JStr b)"
    using isString_E by blast
  then show ?thesis
    by (auto simp add: sameInvoice_def detail_def)
qed

lemma isDuplicateOf_details:
  assumes "hasDetails d" and "hasDetails r"
  shows "isDuplicateOf toLowerCase d (JObj r) = Inr (sameDetails toLowerCase r d)"
  using assms
  by (simp add: isDuplicateOf_def hasDetails_def sameDetails_def sameLower_details
      sameInvoice_details andAlso_def split: bool.split)

lemma some_js_details:
  assumes "hasDetails d" and "\<forall>r\<in>set rs. hasDetails r"
  shows "some_js (isDuplicateOf toLowerCase d) (map JObj rs) =
           Inr (\<exists>r\<in>set rs. sameDetails toLowerCase r d)"
  using assms(2)
proof (induction rs)
  case Nil
  then show ?case by simp
next
  case (Cons r rs)
  then show ?case
    by (cases "sameDetails toLowerCase r d") (simp_all add: isDuplicateOf_details [OF assms(1)])
qed

text \<open>Lower-casing the letters of ASCII against the letter-by-letter comparison.\<close>

lemma asciiCasePairs_facts:
  "distinct (map fst asciiCasePairs)" "distinct (map snd asciiCasePairs)"
  "fst ` set asciiCasePairs \<inter> snd ` set asciiCasePairs = {}"
  by (simp_all add: asciiCasePairs_def)

lemma asciiLower_sameLetter: "asciiLower a = asciiLower b \<longleftrightarrow> sameLetter a b"
proof -
  note d = asciiCasePairs_facts
  have some: "map_of asciiCasePairs x = Some y \<longleftrightarrow> (x, y) \<in> set asciiCasePairs" for x y
    using d(1) by simp
  have none: "map_of asciiCasePairs x = None \<longleftrightarrow> x \<notin> fst ` set asciiCasePairs" for x
    by (simp add: map_of_eq_None_iff)
  have inj: "y = y'" if "(x, y) \<in> set asciiCasePairs" "(x, y') \<in> set asciiCasePairs" for x y y'
    using that d(1) by (meson eq_key_imp_eq_value)
  have inj': "x = x'" if "(x, y) \<in> set asciiCasePairs" "(x', y) \<in> set asciiCasePairs" for x x' y
  proof -
    have "(y, x) \<in> set (map (\<lambda>(u, v). (v, u)) asciiCasePairs)"
      "(y, x') \<in> set (map (\<lambda>(u, v). (v, u)) asciiCasePairs)"
      using that by force+
    moreover have "distinct (map fst (map (\<lambda>(u, v). (v, u)) asciiCasePairs))"
      using d(2) by (simp add: case_prod_unfold comp_def)
    ultimately show ?thesis by (meson eq_key_imp_eq_value)
  qed
  have apart: "False" if "(x, y) \<in> set asciiCasePairs" "(z, x) \<in> set asciiCasePairs" for x y z
  proof -
    have "x \<in> fst ` set asciiCasePairs" "x \<in> snd ` set asciiCasePairs"
      using that by force+
    with d(3) show False by blast
  qed
  show ?thesis
  proof (cases "map_of asciiCasePairs a"; cases "map_of asciiCasePairs b")
    assume n: "map_of asciiCasePairs a = None" "map_of asciiCasePairs b = None"
    then have "a \<notin> fst ` set asciiCasePairs" "b \<notin> fst ` set asciiCasePairs"
      by (simp_all add: none)
    then have "(a, b) \<notin> set asciiCasePairs" "(b, a) \<notin> set asciiCasePairs"
      by force+
    then show ?thesis
      using n by (simp add: asciiLower_def sameLetter_def)
  next
    fix lb
    assume n: "map_of asciiCasePairs a = None" and s: "map_of asciiCasePairs b = Some lb"
    from s have m: "(b, lb) \<in> set asciiCasePairs" by (simp add: some)
    from n have na: "a \<notin> fst ` set asciiCasePairs" by (simp add: none)
    have "a \<noteq> b" using na m by force
    moreover have "(a, b) \<notin> set asciiCasePairs" using na by force
    moreover have "(b, a) \<in> set asciiCasePairs \<longleftrightarrow> a = lb"
      using m inj by blast
    ultimately show ?thesis
      using n s by (simp add: asciiLower_def sameLetter_def)
  next
    fix la
    assume s: "map_of asciiCasePairs a = Some la" and n: "map_of asciiCasePairs b = None"
    from s have m: "(a, la) \<in> set asciiCasePairs" by (simp add: some)
    from n have nb: "b \<notin> fst ` set asciiCasePairs" by (simp add: none)
    have "a \<noteq> b" using nb m by force
    moreover have "(b, a) \<notin> set asciiCasePairs" using nb by force
    moreover have "(a, b) \<in> set asciiCasePairs \<longleftrightarrow> la = b"
      using m inj by blast
    ultimately show ?thesis
      using n s by (simp add: asciiLower_def sameLetter_def)
  next
    fix la lb
    assume sa: "map_of asciiCasePairs a = Some la" and sb: "map_of asciiCasePairs b = Some lb"
    from sa sb have m: "(a, la) \<in> set asciiCasePairs" "(b, lb) \<in> set asciiCasePairs"
      by (simp_all add: some)
    have "(a, b) \<notin> set asciiCasePairs" using m(2) apart by blast
    moreover have "(b, a) \<notin> set asciiCasePairs" using m(1) apart by blast
    moreover have "la = lb \<longleftrightarrow> a = b"
      using m inj inj' by blast
    ultimately show ?thesis
      using sa sb by (simp add: asciiLower_def sameLetter_def)
  qed
qed

lemma map_asciiLower_equalIgnoringCase:
  "map asciiLower a = map asciiLower b \<longleftrightarrow> equalIgnoringCase a b"
proof -
  have "map asciiLower a = map asciiLower b \<longleftrightarrow>
        list_all2 (\<lambda>x y. asciiLower x = asciiLower y) a b"
  proof (induction a arbitrary: b)
    case Nil
    show ?case by (cases b) simp_all
  next
    case (Cons x a)
    show ?case by (cases b) (simp_all add: Cons.IH)
  qed
  then show ?thesis
    by (simp add: equalIgnoringCase_def asciiLower_sameLetter)
qed

lemma lowersAscii_equalIgnoringCase:
  assumes "lowersAscii toLowerCase" and "isAscii a" and "isAscii b"
  shows "toLowerCase a = toLowerCase b \<longleftrightarrow> equalIgnoringCase a b"
  using assms by (simp add: lowersAscii_def map_asciiLower_equalIgnoringCase)

lemma sameDetails_ascii:
  assumes "lowersAscii toLowerCase" and "asciiDetails r" and "asciiDetails d"
  shows "sameDetails toLowerCase r d \<longleftrightarrow> sameDetailsIgnoringCase r d"
  using assms
  by (simp add: sameDetails_def sameDetailsIgnoringCase_def asciiDetails_def
      lowersAscii_equalIgnoringCase)

lemma lowerLatin_ascii: "isAscii s \<Longrightarrow> lowerLatin s = map asciiLower s"
  by (induction s rule: lowerLatin.induct) (auto simp: isAscii_def)

lemma lowersAscii_lowerLatin: "lowersAscii lowerLatin"
  by (simp add: lowersAscii_def lowerLatin_ascii)

lemma saveBill2_duplicate:
  assumes "hasDetails d" and "\<forall>r\<in>set rs. hasDetails r"
    and "getSavedBills2 ls = Inr (JArr (map JObj rs))"
    and "\<exists>r\<in>set rs. sameDetails toLowerCase r d"
  shows "saveBill2 toLowerCase c d ls =
           (Inl (Error ''Bill with same customer details and invoice number already exists''), ls)"
  using assms(3,4) some_js_details [OF assms(1,2), of toLowerCase] by (simp add: saveBill2_def)

lemma saveBill2_no_duplicate:
  assumes "hasDetails d" and "\<forall>r\<in>set rs. hasDetails r"
    and "getSavedBills2 ls = Inr (JArr (map JObj rs))"
    and "\<not> (\<exists>r\<in>set rs. sameDetails toLowerCase r d)"
  shows "\<exists>newBill. saveBill2 toLowerCase c d ls =
           (Inr newBill,
            setItem BILLS_STORAGE_KEY2 (JSON_stringify (JArr (map JObj (rs @ [newBill])))) ls) \<and>
           (\<forall>k. k \<notin> {''id'', ''invoiceNumber'', ''status'', ''createdAt''} \<longrightarrow> newBill k = d k)"
proof -
  have "some_js (isDuplicateOf toLowerCase d) (map JObj rs) = Inr False"
    using assms(4) some_js_details [OF assms(1,2), of toLowerCase] by simp
  from saveBill2_array [OF assms(3) this refl, of c]
  show ?thesis
    by (intro exI conjI) (simp, simp)
qed

lemma details_of_saved:
  assumes "\<forall>k. k \<notin> {''id'', ''invoiceNumber'', ''status'', ''createdAt''} \<longrightarrow> newBill k = d k"
  shows "hasDetails newBill = hasDetails d"
    and "sameDetails toLowerCase newBill e = sameDetails toLowerCase d e"
proof -
  have "newBill ''customer'' = d ''customer''" "newBill ''address'' = d ''address''"
    "newBill ''city'' = d ''city''" "newBill ''invoice'' = d ''invoice''"
    using assms by simp_all
  then show "hasDetails newBill = hasDetails d"
    and "sameDetails toLowerCase newBill e = sameDetails toLowerCase d e"
    by (simp_all add: hasDetails_def sameDetails_def detail_def)
qed

text \<open>
  Claim C1. Let the slot of the second store hold an array of records \<open>rs\<close> with strings
  under \<^verbatim>\<open>customer\<close>, \<^verbatim>\<open>address\<close>, \<^verbatim>\<open>city\<close> and \<^verbatim>\<open>invoice\<close>, as \<open>billData\<close> has, and let
  \<open>toLowerCase\<close> be the host's lower-casing, whatever it is. Then
  \<^verbatim>\<open>saveBill2(billData)\<close> throws the duplicate error exactly when some stored record
  has the same customer, address and city after lower-casing and the same invoice
  reference. The failing save leaves the storage as it was; otherwise the save succeeds
  and appends the new record. After a first save of \<open>billData\<close> into an empty store,
  saving \<open>second\<close> fails when all four fields agree in that sense, and succeeds as soon
  as one of them differs. Where the host lower-cases ASCII as Unicode does and the
  customer, address and city are in ASCII, the same holds with the comparison read
  letter by letter: equal lengths, and at each place the same character or the capital
  and small form of one letter.
\<close>

theorem saveBill2_duplicate_check:
  assumes "hasDetails billData" and "\<forall>r\<in>set rs. hasDetails r"
    and "getSavedBills2 ls = Inr (JArr (map JObj rs))"
  shows "(fst (saveBill2 toLowerCase c billData ls) =
            Inl (Error ''Bill with same customer details and invoice number already exists'') \<longleftrightarrow>
          (\<exists>r\<in>set rs. sameDetails toLowerCase r billData)) \<and>
         ((\<exists>r\<in>set rs. sameDetails toLowerCase r billData) \<longrightarrow>
            snd (saveBill2 toLowerCase c billData ls) = ls) \<and>
         (\<not> (\<exists>r\<in>set rs. sameDetails toLowerCase r billData) \<longrightarrow>
            (\<exists>newBill. fst (saveBill2 toLowerCase c billData ls) = Inr newBill \<and>
               getSavedBills2 (snd (saveBill2 toLowerCase c billData ls)) =
                 Inr (JArr (map JObj (rs @ [newBill]))))) \<and>
         (rs = [] \<and> hasDetails second \<longrightarrow>
            (sameDetails toLowerCase billData second \<longrightarrow>
               saveBill2 toLowerCase c' second (snd (saveBill2 toLowerCase c billData ls)) =
                 (Inl (Error ''Bill with same customer details and invoice number already exists''),
                  snd (saveBill2 toLowerCase c billData ls))) \<and>
            (\<not> sameDetails toLowerCase billData second \<longrightarrow>
               (\<exists>newBill. fst (saveBill2 toLowerCase c' second
                              (snd (saveBill2 toLowerCase c billData ls))) = Inr newBill))) \<and>
         (lowersAscii toLowerCase \<and> asciiDetails billData \<and> (\<forall>r\<in>set rs. asciiDetails r) \<longrightarrow>
            (fst (saveBill2 toLowerCase c billData ls) =
               Inl (Error ''Bill with same customer details and invoice number already exists'') \<longleftrightarrow>
             (\<exists>r\<in>set rs. sameDetailsIgnoringCase r billData))) \<and>
         (lowersAscii toLowerCase \<and> asciiDetails billData \<and> asciiDetails second \<and>
          rs = [] \<and> hasDetails second \<longrightarrow>
            (fst (saveBill2 toLowerCase c' second (snd (saveBill2 toLowerCase c billData ls))) =
               Inl (Error ''Bill with same customer details and invoice number already exists'') \<longleftrightarrow>
             sameDetailsIgnoringCase billData second))"
proof -
  let ?dup = "\<exists>r\<in>set rs. sameDetails toLowerCase r billData"
  let ?err = "Inl (Error ''Bill with same customer details and invoice number already exists'')
                :: error + obj"
  let ?ls1 = "snd (saveBill2 toLowerCase c billData ls)"
  have yes: "saveBill2 toLowerCase c billData ls = (?err, ls)" if ?dup
    using assms that by (rule saveBill2_duplicate)
  have no: "\<exists>newBill. saveBill2 toLowerCase c billData ls =
           (Inr newBill,
            setItem BILLS_STORAGE_KEY2 (JSON_stringify (JArr (map JObj (rs @ [newBill])))) ls) \<and>
           (\<forall>k. k \<notin> {''id'', ''invoiceNumber'', ''status'', ''createdAt''} \<longrightarrow> newBill k = billData k)"
    if "\<not> ?dup"
    using assms that by (rule saveBill2_no_duplicate)
  have 1: "fst (saveBill2 toLowerCase c billData ls) = ?err \<longleftrightarrow> ?dup"
  proof
    assume e: "fst (saveBill2 toLowerCase c billData ls) = ?err"
    show ?dup
    proof (rule ccontr)
      assume "\<not> ?dup"
      from no [OF this] obtain newBill where "saveBill2 toLowerCase c billData ls =
           (Inr newBill,
            setItem BILLS_STORAGE_KEY2 (JSON_stringify (JArr (map JObj (rs @ [newBill])))) ls)"
        by blast
      then have "fst (saveBill2 toLowerCase c billData ls) = Inr newBill" by simp
      with e show False by simp
    qed
  next
    assume ?dup
    from yes [OF this] show "fst (saveBill2 toLowerCase c billData ls) = ?err" by simp
  qed
  have 2: "?dup \<longrightarrow> snd (saveBill2 toLowerCase c billData ls) = ls"
    using yes by simp
  have 3: "\<not> ?dup \<longrightarrow>
            (\<exists>newBill. fst (saveBill2 toLowerCase c billData ls) = Inr newBill \<and>
               getSavedBills2 (snd (saveBill2 toLowerCase c billData ls)) =
                 Inr (JArr (map JObj (rs @ [newBill]))))"
  proof
    assume "\<not> ?dup"
    from no [OF this] obtain newBill where "saveBill2 toLowerCase c billData ls =
           (Inr newBill,
            setItem BILLS_STORAGE_KEY2 (JSON_stringify (JArr (map JObj (rs @ [newBill])))) ls)"
      by blast
    then have "fst (saveBill2 toLowerCase c billData ls) = Inr newBill \<and>
               getSavedBills2 (snd (saveBill2 toLowerCase c billData ls)) =
                 Inr (JArr (map JObj (rs @ [newBill])))"
      by simp
    then show "\<exists>newBill. fst (saveBill2 toLowerCase c billData ls) = Inr newBill \<and>
               getSavedBills2 (snd (saveBill2 toLowerCase c billData ls)) =
                 Inr (JArr (map JObj (rs @ [newBill])))" by (intro exI [of _ newBill]) simp
  qed
  have second_save:
    "(sameDetails toLowerCase billData second \<longrightarrow>
        saveBill2 toLowerCase c' second ?ls1 = (?err, ?ls1)) \<and>
     (\<not> sameDetails toLowerCase billData second \<longrightarrow>
        (\<exists>newBill. fst (saveBill2 toLowerCase c' second ?ls1) = Inr newBill))"
    if e: "rs = []" and h: "hasDetails second"
  proof -
    from e have "\<not> ?dup" by simp
    from no [OF this] obtain first where
      s0: "saveBill2 toLowerCase c billData ls =
           (Inr first, setItem BILLS_STORAGE_KEY2 (JSON_stringify (JArr (map JObj (rs @ [first])))) ls)"
      and k: "\<forall>k. k \<notin> {''id'', ''invoiceNumber'', ''status'', ''createdAt''} \<longrightarrow> first k = billData k"
      by blast
    have s: "saveBill2 toLowerCase c billData ls =
           (Inr first, setItem BILLS_STORAGE_KEY2 (JSON_stringify (JArr (map JObj [first]))) ls)"
      using s0 unfolding e by simp
    have g1: "getSavedBills2 ?ls1 = Inr (JArr (map JObj [first]))"
      using s by simp
    note d = details_of_saved [OF k]
    have h1: "\<forall>r\<in>set [first]. hasDetails r"
      using d(1) assms(1) by simp
    have a: "saveBill2 toLowerCase c' second ?ls1 = (?err, ?ls1)"
      if "sameDetails toLowerCase billData second"
    proof (rule saveBill2_duplicate [OF h h1 g1])
      show "\<exists>r\<in>set [first]. sameDetails toLowerCase r second"
        using that d(2) by simp
    qed
    have b: "\<exists>newBill. fst (saveBill2 toLowerCase c' second ?ls1) = Inr newBill"
      if "\<not> sameDetails toLowerCase billData second"
    proof -
      have "\<not> (\<exists>r\<in>set [first]. sameDetails toLowerCase r second)"
        using that d(2) by simp
      from saveBill2_no_duplicate [OF h h1 g1 this, of c'] obtain nb where
        "saveBill2 toLowerCase c' second ?ls1 =
           (Inr nb, setItem BILLS_STORAGE_KEY2
              (JSON_stringify (JArr (map JObj ([first] @ [nb])))) ?ls1)"
        by blast
      then have "fst (saveBill2 toLowerCase c' second ?ls1) = Inr nb" by simp
      then show ?thesis by (intro exI [of _ nb])
    qed
    from a b show ?thesis by (intro conjI impI)
  qed
  have 5: "fst (saveBill2 toLowerCase c billData ls) = ?err \<longleftrightarrow>
             (\<exists>r\<in>set rs. sameDetailsIgnoringCase r billData)"
    if "lowersAscii toLowerCase" "asciiDetails billData" "\<forall>r\<in>set rs. asciiDetails r"
  proof -
    have "sameDetails toLowerCase r billData \<longleftrightarrow> sameDetailsIgnoringCase r billData"
      if "r \<in> set rs" for r
      using sameDetails_ascii [of toLowerCase r billData] that \<open>lowersAscii toLowerCase\<close>
        \<open>asciiDetails billData\<close> \<open>\<forall>r\<in>set rs. asciiDetails r\<close> by simp
    then have "?dup \<longleftrightarrow> (\<exists>r\<in>set rs. sameDetailsIgnoringCase r billData)"
      by (rule bex_cong [OF refl])
    with 1 show ?thesis by simp
  qed
  have 6: "fst (saveBill2 toLowerCase c' second ?ls1) = ?err \<longleftrightarrow>
             sameDetailsIgnoringCase billData second"
    if l: "lowersAscii toLowerCase" "asciiDetails billData" "asciiDetails second"
      and e: "rs = []" "hasDetails second"
  proof -
    note t = second_save [OF e]
    have eq: "sameDetails toLowerCase billData second \<longleftrightarrow> sameDetailsIgnoringCase billData second"
      using l by (rule sameDetails_ascii)
    show ?thesis
    proof (cases "sameDetails toLowerCase billData second")
      case True
      with t have "saveBill2 toLowerCase c' second ?ls1 = (?err, ?ls1)" by blast
      then have "fst (saveBill2 toLowerCase c' second ?ls1) = ?err" by simp
      with True eq show ?thesis by simp
    next
      case False
      with t obtain nb where "fst (saveBill2 toLowerCase c' second ?ls1) = Inr nb"
        by blast
      then have "fst (saveBill2 toLowerCase c' second ?ls1) \<noteq> ?err" by simp
      with False eq show ?thesis by simp
    qed
  qed
  show ?thesis
  proof (intro conjI)
    show "fst (saveBill2 toLowerCase c billData ls) = ?err \<longleftrightarrow> ?dup" by (rule 1)
    show "?dup \<longrightarrow> snd (saveBill2 toLowerCase c billData ls) = ls" by (rule 2)
    show "\<not> ?dup \<longrightarrow>
            (\<exists>newBill. fst (saveBill2 toLowerCase c billData ls) = Inr newBill \<and>
               getSavedBills2 (snd (saveBill2 toLowerCase c billData ls)) =
                 Inr (JArr (map JObj (rs @ [newBill]))))" by (rule 3)
    show "rs = [] \<and> hasDetails second \<longrightarrow>
            (sameDetails toLowerCase billData second \<longrightarrow>
               saveBill2 toLowerCase c' second ?ls1 = (?err, ?ls1)) \<and>
            (\<not> sameDetails toLowerCase billData second \<longrightarrow>
               (\<exists>newBill. fst (saveBill2 toLowerCase c' second ?ls1) = Inr newBill))"
      by (rule impI, erule conjE, rule second_save)
    show "lowersAscii toLowerCase \<and> asciiDetails billData \<and> (\<forall>r\<in>set rs. asciiDetails r) \<longrightarrow>
            (fst (saveBill2 toLowerCase c billData ls) = ?err \<longleftrightarrow>
             (\<exists>r\<in>set rs. sameDetailsIgnoringCase r billData))"
      by (rule impI, elim conjE, rule 5)
    show "lowersAscii toLowerCase \<and> asciiDetails billData \<and> asciiDetails second \<and>
          rs = [] \<and> hasDetails second \<longrightarrow>
            (fst (saveBill2 toLowerCase c' second ?ls1) = ?err \<longleftrightarrow>
             sameDetailsIgnoringCase billData second)"
      by (rule impI, elim conjE, rule 6)
  qed
qed

lemma example_details:
  "hasDetails acme" "hasDetails bolt" "hasDetails acmeForm" "hasDetails acmeUpper"
  "hasDetails (acmeUpper(''customer'' \<mapsto> JStr ''ACME CORQ''))"
  "hasDetails (acmeUpper(''address'' \<mapsto> JStr ''2 MAIN ST''))"
  "hasDetails (acmeUpper(''city'' \<mapsto> JStr ''PUNA''))"
  "hasDetails (acmeUpper(''invoice'' \<mapsto> JStr ''A-18''))"
  "hasDetails cafeUpper" "hasDetails cafeLower"
  by (simp_all add: hasDetails_def acme_def bolt_def acmeForm_def acmeUpper_def
      cafeUpper_def cafeLower_def)

lemma example_asciiDetails:
  "asciiDetails acme" "asciiDetails bolt" "asciiDetails acmeForm" "asciiDetails acmeUpper"
  "asciiDetails (acmeUpper(''customer'' \<mapsto> JStr ''ACME CORQ''))"
  "asciiDetails (acmeUpper(''address'' \<mapsto> JStr ''2 MAIN ST''))"
  "asciiDetails (acmeUpper(''city'' \<mapsto> JStr ''PUNA''))"
  "asciiDetails (acmeUpper(''invoice'' \<mapsto> JStr ''A-18''))"
  by (simp_all add: asciiDetails_def isAscii_def detail_def acme_def bolt_def acmeForm_def
      acmeUpper_def)

lemma example_ignoringCase:
  "sameDetailsIgnoringCase acme acmeUpper" "\<not> sameDetailsIgnoringCase bolt acmeUpper"
  "sameDetailsIgnoringCase acmeForm acmeUpper"
  "\<not> sameDetailsIgnoringCase acmeForm (acmeUpper(''customer'' \<mapsto> JStr ''ACME CORQ''))"
  "\<not> sameDetailsIgnoringCase acmeForm (acmeUpper(''address'' \<mapsto> JStr ''2 MAIN ST''))"
  "\<not> sameDetailsIgnoringCase acmeForm (acmeUpper(''city'' \<mapsto> JStr ''PUNA''))"
  "\<not> sameDetailsIgnoringCase acmeForm (acmeUpper(''invoice'' \<mapsto> JStr ''A-18''))"
  by (simp_all add: sameDetailsIgnoringCase_def equalIgnoringCase_def sameLetter_def
      asciiCasePairs_def detail_def acme_def bolt_def acmeForm_def acmeUpper_def)

lemma example_cafe: "sameDetails lowerLatin cafeUpper cafeLower"
  by (simp add: sameDetails_def detail_def cafeUpper_def cafeLower_def asciiLower_def
      asciiCasePairs_def latin1Lower_def)

theorem saveBill2_duplicate_check_witness:
  "hasDetails acmeUpper \<and> hasDetails acme \<and> hasDetails bolt \<and>
   getSavedBills2 twoBills = Inr (JArr (map JObj [acme, bolt])) \<and>
   lowersAscii lowerLatin \<and> asciiDetails acmeUpper \<and> asciiDetails acme \<and> asciiDetails bolt \<and>
   sameDetailsIgnoringCase acme acmeUpper \<and>
   fst (saveBill2 lowerLatin noon acmeUpper twoBills) =
     Inl (Error ''Bill with same customer details and invoice number already exists'') \<and>
   snd (saveBill2 lowerLatin noon acmeUpper twoBills) = twoBills \<and>
   hasDetails acmeForm \<and> asciiDetails acmeForm \<and>
   getSavedBills2 emptyStorage = Inr (JArr (map JObj [])) \<and>
   sameDetailsIgnoringCase acmeForm acmeUpper \<and>
   fst (saveBill2 lowerLatin noon acmeUpper (snd (saveBill2 lowerLatin noon acmeForm emptyStorage))) =
     Inl (Error ''Bill with same customer details and invoice number already exists'') \<and>
   \<not> sameDetailsIgnoringCase acmeForm (acmeUpper(''customer'' \<mapsto> JStr ''ACME CORQ'')) \<and>
   fst (saveBill2 lowerLatin noon (acmeUpper(''customer'' \<mapsto> JStr ''ACME CORQ''))
          (snd (saveBill2 lowerLatin noon acmeForm emptyStorage))) \<noteq>
     Inl (Error ''Bill with same customer details and invoice number already exists'') \<and>
   \<not> sameDetailsIgnoringCase acmeForm (acmeUpper(''address'' \<mapsto> JStr ''2 MAIN ST'')) \<and>
   fst (saveBill2 lowerLatin noon (acmeUpper(''address'' \<mapsto> JStr ''2 MAIN ST''))
          (snd (saveBill2 lowerLatin noon acmeForm emptyStorage))) \<noteq>
     Inl (Error ''Bill with same customer details and invoice number already exists'') \<and>
   \<not> sameDetailsIgnoringCase acmeForm (acmeUpper(''city'' \<mapsto> JStr ''PUNA'')) \<and>
   fst (saveBill2 lowerLatin noon (acmeUpper(''city'' \<mapsto> JStr ''PUNA''))
          (snd (saveBill2 lowerLatin noon acmeForm emptyStorage))) \<noteq>
     Inl (Error ''Bill with same customer details and invoice number already exists'') \<and>
   \<not> sameDetailsIgnoringCase acmeForm (acmeUpper(''invoice'' \<mapsto> JStr ''A-18'')) \<and>
   (\<exists>newBill. fst (saveBill2 lowerLatin noon (acmeUpper(''invoice'' \<mapsto> JStr ''A-18''))
                     (snd (saveBill2 lowerLatin noon acmeForm emptyStorage))) = Inr newBill) \<and>
   hasDetails cafeUpper \<and> hasDetails cafeLower \<and>
   sameDetails lowerLatin cafeUpper cafeLower \<and>
   saveBill2 lowerLatin noon cafeLower (snd (saveBill2 lowerLatin noon cafeUpper emptyStorage)) =
     (Inl (Error ''Bill with same customer details and invoice number already exists''),
      snd (saveBill2 lowerLatin noon cafeUpper emptyStorage))"
proof -
  let ?err = "Inl (Error ''Bill with same customer details and invoice number already exists'')
                :: error + obj"
  let ?ls1 = "snd (saveBill2 lowerLatin noon acmeForm emptyStorage)"
  let ?cu = "acmeUpper(''customer'' \<mapsto> JStr ''ACME CORQ'')"
  let ?ad = "acmeUpper(''address'' \<mapsto> JStr ''2 MAIN ST'')"
  let ?ci = "acmeUpper(''city'' \<mapsto> JStr ''PUNA'')"
  let ?iv = "acmeUpper(''invoice'' \<mapsto> JStr ''A-18'')"
  note h = example_details and a = example_asciiDetails and i = example_ignoringCase
    and l = lowersAscii_lowerLatin
  have g: "getSavedBills2 twoBills = Inr (JArr (map JObj [acme, bolt]))"
    by simp
  have g0: "getSavedBills2 emptyStorage = Inr (JArr (map JObj []))"
    by (simp add: getSavedBills2_def getItem_def emptyStorage_def)
  have hs: "\<forall>r\<in>set [acme, bolt]. hasDetails r" "\<forall>r\<in>set [acme, bolt]. asciiDetails r"
    by (simp_all add: h a)
  have h0: "\<forall>r\<in>set ([] :: obj list). hasDetails r"
    by simp
  have d: "\<exists>r\<in>set [acme, bolt]. sameDetailsIgnoringCase r acmeUpper"
    by (simp add: i)
  note t = saveBill2_duplicate_check [OF h(4) hs(1) g, of lowerLatin noon]
  have 1: "fst (saveBill2 lowerLatin noon acmeUpper twoBills) = ?err"
    using t l a(4) hs(2) d by blast
  then have "\<exists>r\<in>set [acme, bolt]. sameDetails lowerLatin r acmeUpper"
    using t by blast
  then have 2: "snd (saveBill2 lowerLatin noon acmeUpper twoBills) = twoBills"
    using t by blast
  have u: "fst (saveBill2 lowerLatin noon second ?ls1) = ?err \<longleftrightarrow>
             sameDetailsIgnoringCase acmeForm second"
    if "hasDetails second" "asciiDetails second" for second
    using saveBill2_duplicate_check [OF h(3) h0 g0, of lowerLatin noon second noon] l a(3) that
    by blast
  have 3: "fst (saveBill2 lowerLatin noon acmeUpper ?ls1) = ?err"
    using u [OF h(4) a(4)] i(3) by simp
  have 4: "fst (saveBill2 lowerLatin noon ?cu ?ls1) \<noteq> ?err"
    using u [OF h(5) a(5)] i(4) by simp
  have 5: "fst (saveBill2 lowerLatin noon ?ad ?ls1) \<noteq> ?err"
    using u [OF h(6) a(6)] i(5) by simp
  have 6: "fst (saveBill2 lowerLatin noon ?ci ?ls1) \<noteq> ?err"
    using u [OF h(7) a(7)] i(6) by simp
  have "\<not> sameDetails lowerLatin acmeForm ?iv"
    using sameDetails_ascii [OF l a(3) a(8)] i(7) by simp
  then have 7: "\<exists>newBill. fst (saveBill2 lowerLatin noon ?iv ?ls1) = Inr newBill"
    using saveBill2_duplicate_check [OF h(3) h0 g0, of lowerLatin noon ?iv noon] h(8)
    by blast
  have 8: "saveBill2 lowerLatin noon cafeLower (snd (saveBill2 lowerLatin noon cafeUpper emptyStorage)) =
     (?err, snd (saveBill2 lowerLatin noon cafeUpper emptyStorage))"
    using saveBill2_duplicate_check [OF h(9) h0 g0, of lowerLatin noon cafeLower noon] h(10)
      example_cafe
    by blast
  show ?thesis
    using h(1,2,3,4,9,10) a(1-4) l i(1,3,4,5,6,7) g g0 1 2 3 4 5 6 7 8 example_cafe
    by (intro conjI)
qed

end
